theory Spec2Isabelle
  imports Complex_Main "HOL-Library.Word" "HOL-Library.Sublist"
begin

section \<open>Strings\<close>

text \<open>
  A JavaScript string is a sequence of UTF-16 code units. Message texts, keywords and
  responses are modelled as lists of 16-bit words; literals of the source that hold
  non-ASCII letters are written out by their code units. Identifiers that the code only
  compares or uses as object keys (client identifiers, session tokens, dates, feedback
  values) are ASCII and are modelled as HOL strings.
\<close>

type_synonym jsstring = "16 word list"

text \<open>\<^verbatim>\<open>hay.includes(needle)\<close>: the needle occurs as a contiguous run of the hay.\<close>

fun str_includes :: "'a list \<Rightarrow> 'a list \<Rightarrow> bool" where
  "str_includes [] needle = (needle = [])"
| "str_includes (c # cs) needle = (prefix needle (c # cs) \<or> str_includes cs needle)"

text \<open>
  \<^verbatim>\<open>String.prototype.toLowerCase\<close> belongs to the runtime, not to the repository: it
  is a parameter \<open>lc\<close> of every function that calls it, and the theorems hold for
  every such function. \<open>asciiLower\<close> maps the letters A to Z to a to z and leaves every
  other code unit alone; it agrees with the runtime's function on every string in which
  A to Z are the only letters that function changes, as in the strings of the scenarios,
  which are in lower case already. It is used to evaluate the scenarios.
\<close>

definition asciiLowerUnit :: "16 word \<Rightarrow> 16 word" where
  "asciiLowerUnit c = (if 65 \<le> c \<and> c \<le> 90 then c + 32 else c)"

definition asciiLower :: "jsstring \<Rightarrow> jsstring" where
  "asciiLower s = map asciiLowerUnit s"

section \<open>Numbers\<close>

text \<open>
  A JavaScript number is an IEEE 754 double. A finite double is modelled by the real
  number it denotes, and an operation of the code by the exact operation followed by the
  rounding to the nearest double, ties to the even significand: 53 significant bits, a
  binary exponent from -1022 to 1023, and below that the fixed spacing 2 to the -1074 of
  the subnormal numbers. A numeric literal of the source denotes the double nearest to
  it, \<open>literal 8 10\<close> for \<^verbatim>\<open>0.8\<close>. Infinities and NaN are not modelled: the
  confidences of the patterns are taken to be finite, and a weighted confidence, the
  product of a confidence with a number that is at most 1, never overflows. The
  constants that the handlers only store and send, 0.85 and 0.3, and the step 0.05 and
  the bound 0.1 of the feedback are written as the decimals themselves.
\<close>

definition roundHalfEven :: "real \<Rightarrow> int" where
  "roundHalfEven x =
     (if x - of_int \<lfloor>x\<rfloor> < 1 / 2 then \<lfloor>x\<rfloor>
      else if 1 / 2 < x - of_int \<lfloor>x\<rfloor> then \<lfloor>x\<rfloor> + 1
      else if even \<lfloor>x\<rfloor> then \<lfloor>x\<rfloor> else \<lfloor>x\<rfloor> + 1)"

definition pow2 :: "int \<Rightarrow> real" where
  "pow2 k = (if 0 \<le> k then 2 ^ nat k else 1 / 2 ^ nat (- k))"

text \<open>
  The binary exponent of a positive number: the \<open>e\<close> with \<open>pow2 e \<le> a < pow2 (e + 1)\<close>,
  found by halving or doubling, and kept between -1022 and 1023.
\<close>

fun exponentUp :: "nat \<Rightarrow> real \<Rightarrow> int" where
  "exponentUp 0 a = 0"
| "exponentUp (Suc n) a = (if a < 2 then 0 else 1 + exponentUp n (a / 2))"

fun exponentDown :: "nat \<Rightarrow> real \<Rightarrow> int" where
  "exponentDown 0 a = 0"
| "exponentDown (Suc n) a = (if 1 \<le> a then 0 else exponentDown n (2 * a) - 1)"

definition binaryExponent :: "real \<Rightarrow> int" where
  "binaryExponent a = (if 1 \<le> a then exponentUp 1023 a else exponentDown 1022 a)"

text \<open>The distance between neighbouring doubles at \<open>a\<close>.\<close>

definition ulp :: "real \<Rightarrow> real" where
  "ulp a = pow2 (binaryExponent a - 52)"

definition roundDouble :: "real \<Rightarrow> real" where
  "roundDouble x =
     (if x = 0 then 0
      else sgn x * (of_int (roundHalfEven (\<bar>x\<bar> / ulp \<bar>x\<bar>)) * ulp \<bar>x\<bar>))"

text \<open>The double that the decimal literal with the value \<open>n / d\<close> denotes.\<close>

definition literal :: "int \<Rightarrow> int \<Rightarrow> real" where
  "literal n d = roundDouble (of_int n / of_int d)"

text \<open>The operators \<^verbatim>\<open>/\<close> and \<^verbatim>\<open>*\<close> of the code.\<close>

definition fdiv :: "real \<Rightarrow> real \<Rightarrow> real" where
  "fdiv x y = roundDouble (x / y)"

definition fmul :: "real \<Rightarrow> real \<Rightarrow> real" where
  "fmul x y = roundDouble (x * y)"

section \<open>Knowledge Matcher: \<^verbatim>\<open>ChatBotBrain\<close>\<close>

record pattern =
  keywordList :: "jsstring list"
  response :: jsstring
  confidence :: real
  usage :: int

text \<open>\<^verbatim>\<open>{ ...pattern, calculatedConfidence: confidence }\<close>\<close>

record bestMatch = pattern +
  calculatedConfidence :: real

definition withCalculated :: "pattern \<Rightarrow> real \<Rightarrow> bestMatch" where
  "withCalculated p c =
     \<lparr>keywordList = keywordList p, response = response p, confidence = confidence p,
      usage = usage p, calculatedConfidence = c\<rparr>"

text \<open>The value \<^verbatim>\<open>analyzeMessage\<close> returns.\<close>

record analysis =
  match :: "bestMatch option"
  matchConfidence :: real
  shouldEscalate :: bool

text \<open>The inner loop of \<^verbatim>\<open>analyzeMessage\<close>: one point for each keyword found.\<close>

fun scoreLoop :: "(jsstring \<Rightarrow> jsstring) \<Rightarrow> jsstring \<Rightarrow> jsstring list \<Rightarrow> nat \<Rightarrow> nat" where
  "scoreLoop lc lowerMessage [] score = score"
| "scoreLoop lc lowerMessage (keyword # rest) score =
     scoreLoop lc lowerMessage rest
       (if str_includes lowerMessage (lc keyword) then score + 1 else score)"

text \<open>
  The outer loop, with the two variables \<^verbatim>\<open>bestMatch\<close> and \<^verbatim>\<open>highestScore\<close> it
  updates.
\<close>

fun analyzeLoop ::
  "(jsstring \<Rightarrow> jsstring) \<Rightarrow> jsstring \<Rightarrow> pattern list \<Rightarrow> bestMatch option \<times> real \<Rightarrow>
   bestMatch option \<times> real" where
  "analyzeLoop lc lowerMessage [] acc = acc"
| "analyzeLoop lc lowerMessage (p # ps) (best, highestScore) =
     (let score = scoreLoop lc lowerMessage (keywordList p) 0 in
      if score > 0 then
        (let conf = fmul (fdiv (real score) (real (length (keywordList p)))) (confidence p) in
         if conf > highestScore
         then analyzeLoop lc lowerMessage ps (Some (withCalculated p conf), conf)
         else analyzeLoop lc lowerMessage ps (best, highestScore))
      else analyzeLoop lc lowerMessage ps (best, highestScore))"

definition analyzeMessage ::
  "(jsstring \<Rightarrow> jsstring) \<Rightarrow> real \<Rightarrow> pattern list \<Rightarrow> jsstring \<Rightarrow> analysis" where
  "analyzeMessage lc confidenceThreshold knowledgeBase message =
     (let lowerMessage = lc message;
          (best, highestScore) = analyzeLoop lc lowerMessage knowledgeBase (None, 0)
      in \<lparr>match = best, matchConfidence = highestScore,
          shouldEscalate = (highestScore < confidenceThreshold)\<rparr>)"

text \<open>
  The constructor reads the threshold from the environment:
  \<^verbatim>\<open>parseFloat(process.env.AI_CONFIDENCE_THRESHOLD) || 0.7\<close>. The argument is the parsed
  number, \<open>None\<close> when the variable is unset or not a number; zero is falsy as well.
\<close>

definition confidenceThresholdOf :: "real option \<Rightarrow> real" where
  "confidenceThresholdOf parsed =
     (case parsed of
        None \<Rightarrow> literal 7 10
      | Some x \<Rightarrow> if x = 0 then literal 7 10 else x)"

text \<open>
  \<^verbatim>\<open>updatePattern\<close>: \<^verbatim>\<open>findIndex\<close> takes the first pattern whose keyword array
  serialises to the same JSON text, that is, the first with the same keywords.
\<close>

fun findIndex :: "('a \<Rightarrow> bool) \<Rightarrow> 'a list \<Rightarrow> nat option" where
  "findIndex P [] = None"
| "findIndex P (x # xs) =
     (if P x then Some 0 else map_option Suc (findIndex P xs))"

definition nudge :: "string \<Rightarrow> pattern \<Rightarrow> pattern" where
  "nudge feedback p =
     (let p1 = p\<lparr>usage := usage p + 1\<rparr> in
      if feedback = ''positive'' then p1\<lparr>confidence := min 1 (confidence p1 + 5 / 100)\<rparr>
      else if feedback = ''negative'' then p1\<lparr>confidence := max (1 / 10) (confidence p1 - 5 / 100)\<rparr>
      else p1)"

definition updatePattern :: "pattern list \<Rightarrow> jsstring list \<Rightarrow> string \<Rightarrow> pattern list" where
  "updatePattern knowledgeBase patternKeywords feedback =
     (case findIndex (\<lambda>p. keywordList p = patternKeywords) knowledgeBase of
        None \<Rightarrow> knowledgeBase
      | Some index \<Rightarrow> knowledgeBase[index := nudge feedback (knowledgeBase ! index)])"

text \<open>The default patterns of \<^verbatim>\<open>loadKnowledgeBase\<close>.\<close>

definition kw_merhaba :: jsstring where
  \<comment> \<open>merhaba\<close>
  "kw_merhaba =
     [109, 101, 114, 104, 97, 98, 97]"

definition kw_selam :: jsstring where
  \<comment> \<open>selam\<close>
  "kw_selam =
     [115, 101, 108, 97, 109]"

definition kw_hey :: jsstring where
  \<comment> \<open>hey\<close>
  "kw_hey =
     [104, 101, 121]"

definition kw_hi :: jsstring where
  \<comment> \<open>hi\<close>
  "kw_hi =
     [104, 105]"

definition kw_altin :: jsstring where
  \<comment> \<open>altin, with U+0131 for the dotless i\<close>
  "kw_altin =
     [97, 108, 116, 305, 110]"

definition kw_para :: jsstring where
  \<comment> \<open>para\<close>
  "kw_para =
     [112, 97, 114, 97]"

definition kw_transfer :: jsstring where
  \<comment> \<open>transfer\<close>
  "kw_transfer =
     [116, 114, 97, 110, 115, 102, 101, 114]"

definition kw_fiyat :: jsstring where
  \<comment> \<open>fiyat\<close>
  "kw_fiyat =
     [102, 105, 121, 97, 116]"

definition kw_ucret :: jsstring where
  \<comment> \<open>ucret, with U+00FC\<close>
  "kw_ucret =
     [252, 99, 114, 101, 116]"

definition kw_ne_kadar :: jsstring where
  \<comment> \<open>ne kadar\<close>
  "kw_ne_kadar =
     [110, 101, 32, 107, 97, 100, 97, 114]"

definition kw_depolama :: jsstring where
  \<comment> \<open>depolama\<close>
  "kw_depolama =
     [100, 101, 112, 111, 108, 97, 109, 97]"

definition kw_agil :: jsstring where
  \<comment> \<open>agil, with U+011F and U+0131\<close>
  "kw_agil =
     [97, 287, 305, 108]"

definition kw_ambar :: jsstring where
  \<comment> \<open>ambar\<close>
  "kw_ambar =
     [97, 109, 98, 97, 114]"

definition kw_makine :: jsstring where
  \<comment> \<open>makine\<close>
  "kw_makine =
     [109, 97, 107, 105, 110, 101]"

definition kw_uretim :: jsstring where
  \<comment> \<open>uretim, with U+00FC\<close>
  "kw_uretim =
     [252, 114, 101, 116, 105, 109]"

definition kw_seviye :: jsstring where
  \<comment> \<open>seviye\<close>
  "kw_seviye =
     [115, 101, 118, 105, 121, 101]"

definition response_merhaba :: jsstring where
  \<comment> \<open>the greeting reply\<close>
  "response_merhaba =
     [77, 101, 114, 104, 97, 98, 97, 33, 32, 72, 97, 121, 68, 97, 121, 32,
      77, 97, 108, 122, 101, 109, 101, 108, 101, 114, 105, 32, 100, 101,
      115, 116, 101, 107, 32, 101, 107, 105, 98, 105, 110, 101, 32, 104,
      111, 351, 32, 103, 101, 108, 100, 105, 110, 105, 122, 46, 32, 83,
      105, 122, 101, 32, 110, 97, 115, 305, 108, 32, 121, 97, 114, 100,
      305, 109, 99, 305, 32, 111, 108, 97, 98, 105, 108, 105, 114, 105,
      109, 63]"

definition response_altin :: jsstring where
  \<comment> \<open>the gold transfer reply\<close>
  "response_altin =
     [65, 108, 116, 305, 110, 32, 116, 114, 97, 110, 115, 102, 101, 114,
      105, 32, 104, 97, 107, 107, 305, 110, 100, 97, 32, 100, 101, 116, 97,
      121, 108, 305, 32, 98, 105, 108, 103, 105, 32, 105, 231, 105, 110,
      32, 34, 83, 111, 114, 117, 108, 97, 114, 32, 38, 32, 304, 108, 101,
      116, 105, 351, 105, 109, 34, 32, 115, 97, 121, 102, 97, 109, 305,
      122, 305, 32, 122, 105, 121, 97, 114, 101, 116, 32, 101, 100, 101,
      98, 105, 108, 105, 114, 115, 105, 110, 105, 122, 46, 32, 83, 105,
      122, 101, 32, 121, 97, 114, 100, 305, 109, 99, 305, 32, 111, 108,
      109, 97, 107, 32, 105, 231, 105, 110, 32, 98, 117, 114, 97, 100, 97,
      121, 305, 109, 33]"

definition response_fiyat :: jsstring where
  \<comment> \<open>the price list reply\<close>
  "response_fiyat =
     [220, 114, 252, 110, 32, 102, 105, 121, 97, 116, 108, 97, 114, 305,
      32, 105, 231, 105, 110, 32, 34, 220, 114, 252, 110, 32, 76, 105, 115,
      116, 101, 110, 105, 122, 105, 32, 79, 108, 117, 351, 116, 117, 114,
      117, 110, 34, 32, 115, 97, 121, 102, 97, 115, 305, 110, 305, 32, 105,
      110, 99, 101, 108, 101, 121, 101, 98, 105, 108, 105, 114, 115, 105,
      110, 105, 122, 46, 32, 71, 252, 110, 99, 101, 108, 32, 102, 105, 121,
      97, 116, 108, 97, 114, 305, 109, 305, 122, 32, 111, 114, 97, 100, 97,
      32, 121, 101, 114, 32, 97, 108, 109, 97, 107, 116, 97, 100, 305, 114,
      46]"

definition response_depolama :: jsstring where
  \<comment> \<open>the storage calculator reply\<close>
  "response_depolama =
     [68, 101, 112, 111, 108, 97, 109, 97, 32, 104, 101, 115, 97, 112, 108,
      97, 109, 97, 108, 97, 114, 305, 32, 105, 231, 105, 110, 32, 246, 122,
      101, 108, 32, 104, 101, 115, 97, 112, 108, 97, 121, 305, 99, 305,
      109, 305, 122, 305, 32, 107, 117, 108, 108, 97, 110, 97, 98, 105,
      108, 105, 114, 115, 105, 110, 105, 122, 58, 32, 34, 68, 101, 112,
      111, 108, 97, 109, 97, 32, 72, 101, 115, 97, 112, 108, 97, 121, 305,
      99, 305, 115, 305, 34, 32, 115, 97, 121, 102, 97, 109, 305, 122, 305,
      32, 122, 105, 121, 97, 114, 101, 116, 32, 101, 100, 105, 110, 46]"

definition response_makine :: jsstring where
  \<comment> \<open>the machines reply\<close>
  "response_makine =
     [77, 97, 107, 105, 110, 101, 32, 98, 105, 108, 103, 105, 108, 101,
      114, 105, 32, 118, 101, 32, 115, 101, 118, 105, 121, 101, 108, 101,
      114, 105, 32, 104, 97, 107, 107, 305, 110, 100, 97, 32, 34, 77, 97,
      107, 105, 110, 101, 108, 101, 114, 34, 32, 115, 97, 121, 102, 97,
      109, 305, 122, 100, 97, 110, 32, 100, 101, 116, 97, 121, 108, 305,
      32, 98, 105, 108, 103, 105, 32, 97, 108, 97, 98, 105, 108, 105, 114,
      115, 105, 110, 105, 122, 46]"

definition defaultKnowledgeBase :: "pattern list" where
  "defaultKnowledgeBase =
     [\<lparr>keywordList = [kw_merhaba, kw_selam, kw_hey, kw_hi], response = response_merhaba,
       confidence = literal 9 10, usage = 0\<rparr>,
      \<lparr>keywordList = [kw_altin, kw_para, kw_transfer], response = response_altin,
       confidence = literal 8 10, usage = 0\<rparr>,
      \<lparr>keywordList = [kw_fiyat, kw_ucret, kw_ne_kadar], response = response_fiyat,
       confidence = literal 8 10, usage = 0\<rparr>,
      \<lparr>keywordList = [kw_depolama, kw_agil, kw_ambar], response = response_depolama,
       confidence = literal 8 10, usage = 0\<rparr>,
      \<lparr>keywordList = [kw_makine, kw_uretim, kw_seviye], response = response_makine,
       confidence = literal 8 10, usage = 0\<rparr>]"

section \<open>Escalation Processor: \<^verbatim>\<open>AIProcessor\<close>\<close>

text \<open>
  The text completion service is outside the repository. A call either rejects (network
  error, timeout, quota) or resolves to a completion, of which the code reads
  \<^verbatim>\<open>choices[0].message.content\<close> and \<^verbatim>\<open>usage.total_tokens\<close>; reading either from a
  completion that lacks it throws inside the same \<^verbatim>\<open>try\<close> block.
\<close>

record completion =
  choices :: "jsstring list"
  totalTokens :: "int option"

datatype completionOutcome = Rejected | Resolved completion

record aiResult =
  aiResponse :: jsstring
  aiConfidence :: real
  tokensUsed :: int

definition fallbackResponse :: jsstring where
  \<comment> \<open>the apology of the catch block of processMessage\<close>
  "fallbackResponse =
     [220, 122, 103, 252, 110, 252, 109, 44, 32, 351, 117, 32, 97, 110,
      100, 97, 32, 116, 101, 107, 110, 105, 107, 32, 98, 105, 114, 32, 115,
      111, 114, 117, 110, 32, 121, 97, 351, 305, 121, 111, 114, 117, 109,
      46, 32, 76, 252, 116, 102, 101, 110, 32, 98, 105, 114, 97, 122, 32,
      115, 111, 110, 114, 97, 32, 116, 101, 107, 114, 97, 114, 32, 100,
      101, 110, 101, 121, 105, 110, 32, 118, 101, 121, 97, 32, 83, 111,
      114, 117, 108, 97, 114, 32, 38, 32, 304, 108, 101, 116, 105, 351,
      105, 109, 32, 115, 97, 121, 102, 97, 109, 305, 122, 100, 97, 110, 32,
      98, 105, 122, 101, 32, 117, 108, 97, 351, 305, 110, 46]"

definition processMessage :: "(jsstring \<Rightarrow> completionOutcome) \<Rightarrow> jsstring \<Rightarrow> aiResult" where
  "processMessage create message =
     (case create message of
        Rejected \<Rightarrow> \<lparr>aiResponse = fallbackResponse, aiConfidence = 3 / 10, tokensUsed = 0\<rparr>
      | Resolved c \<Rightarrow>
          (case (choices c, totalTokens c) of
             (text # _, Some n) \<Rightarrow> \<lparr>aiResponse = text, aiConfidence = 85 / 100, tokensUsed = n\<rparr>
           | _ \<Rightarrow> \<lparr>aiResponse = fallbackResponse, aiConfidence = 3 / 10, tokensUsed = 0\<rparr>))"

section \<open>The stored documents\<close>

datatype role = User | Chatbot | Ai | Admin

record message =
  timestamp :: int
  clientId :: string
  role :: role
  content :: jsstring
  msgConfidence :: "real option"
  adminId :: "string option"

record dayStats =
  total :: int
  chatbot :: int
  ai :: int
  admin :: int

record takeover =
  takeoverTimestamp :: int
  takeoverAdminId :: "string option"
  status :: string

text \<open>
  The analytics document holds one bucket for each day, keyed by the date, and the
  takeover records under the key \<^verbatim>\<open>adminTakeovers\<close>; a missing \<^verbatim>\<open>adminTakeovers\<close>
  object is created empty before it is written, so it is modelled by the empty map.
\<close>

record analytics =
  days :: "string \<rightharpoonup> dayStats"
  adminTakeovers :: "string \<rightharpoonup> takeover"

record session =
  telegramId :: string
  created :: int
  expires :: int

record authData =
  code :: string
  codeExpires :: int

text \<open>
  The files and the objects in memory. \<^verbatim>\<open>readJSONFile\<close> answers for a missing file with
  the default it is given and \<^verbatim>\<open>writeJSONFile\<close> replaces the whole document, so each
  file is modelled by its content, the default standing for a missing file; reads and
  writes are taken to succeed. \<open>argumentLimit\<close> is the largest number of arguments that
  the engine accepts in one call; it depends on the engine and on the size of its stack,
  and a call with more arguments throws \<^verbatim>\<open>RangeError\<close>.
\<close>

record state =
  chatLog :: "message list"
  analyticsFile :: analytics
  adminSessions :: "string \<rightharpoonup> session"
  knowledgeBaseFile :: "pattern list"
  knowledgeBase :: "pattern list"
  confidenceThreshold :: real
  authCodes :: "string \<rightharpoonup> authData"
  adminTelegramId :: "string option"
  argumentLimit :: nat

datatype httpResponse =
    BadRequest string
  | Unauthorized
  | Forbidden
  | SendOk jsstring role real int
  | PollOk "message list" int
  | ServerError string
  | RequestCodeOk bool
  | VerifyOk string
  | TakeoverOk
  | RespondOk int

subsection \<open>Objects parsed from JSON\<close>

text \<open>
  \<^verbatim>\<open>obj[key]\<close> on an object that \<^verbatim>\<open>JSON.parse\<close> built (or on the literal \<^verbatim>\<open>{}\<close>)
  answers with the object's own property when it has one, and otherwise follows the
  prototype chain to \<^verbatim>\<open>Object.prototype\<close>, whose members are functions (and, for
  \<^verbatim>\<open>__proto__\<close>, the prototype object itself): truthy values. Assigning an object to
  the key \<^verbatim>\<open>__proto__\<close> of an object that has no own property of that name changes
  the prototype and creates no own property, so that nothing of it reaches the file.
\<close>

datatype 'a property = Own 'a | Inherited | Missing

definition objectPrototypeKeys :: "string list" where
  "objectPrototypeKeys =
     [''constructor'', ''__proto__'', ''hasOwnProperty'', ''isPrototypeOf'',
      ''propertyIsEnumerable'', ''toLocaleString'', ''toString'', ''valueOf'',
      ''__defineGetter__'', ''__defineSetter__'', ''__lookupGetter__'',
      ''__lookupSetter__'']"

definition getProperty :: "(string \<rightharpoonup> 'a) \<Rightarrow> string \<Rightarrow> 'a property" where
  "getProperty obj key =
     (case obj key of
        Some v \<Rightarrow> Own v
      | None \<Rightarrow> if key \<in> set objectPrototypeKeys then Inherited else Missing)"

definition setProperty :: "(string \<rightharpoonup> 'a) \<Rightarrow> string \<Rightarrow> 'a \<Rightarrow> (string \<rightharpoonup> 'a)" where
  "setProperty obj key v =
     (if key = ''__proto__'' \<and> obj key = None then obj else obj(key \<mapsto> v))"

text \<open>\<^verbatim>\<open>subject.replace(pat, rep)\<close> with a string pattern: the first occurrence only.\<close>

fun replaceFirst :: "string \<Rightarrow> string \<Rightarrow> string \<Rightarrow> string" where
  "replaceFirst pat rep [] = (if pat = [] then rep else [])"
| "replaceFirst pat rep (c # cs) =
     (if prefix pat (c # cs) then rep @ drop (length pat) (c # cs)
      else c # replaceFirst pat rep cs)"

text \<open>
  \<^verbatim>\<open>req.headers.authorization?.replace('Bearer ', '')\<close>; without the header the token
  is \<^verbatim>\<open>undefined\<close>, which as a property key is the string \<^verbatim>\<open>undefined\<close>.
\<close>

definition bearerToken :: "string option \<Rightarrow> string" where
  "bearerToken authorization =
     (case authorization of
        None \<Rightarrow> ''undefined''
      | Some header \<Rightarrow> replaceFirst ''Bearer '' [] header)"

text \<open>
  The guard of the admin handlers,
  \<^verbatim>\<open>if (!sessions[token] || sessions[token].expires < Date.now())\<close> answer 401.
  The result is \<open>None\<close> when the guard answers 401, and otherwise the value the handler
  later reads as \<^verbatim>\<open>sessions[token].telegramId\<close>. An inherited member has neither
  property: \<^verbatim>\<open>undefined < Date.now()\<close> is false, and the identifier is \<^verbatim>\<open>undefined\<close>.
\<close>

definition sessionGuard :: "(string \<rightharpoonup> session) \<Rightarrow> string \<Rightarrow> int \<Rightarrow> string option option" where
  "sessionGuard sessions token now =
     (case getProperty sessions token of
        Missing \<Rightarrow> None
      | Inherited \<Rightarrow> Some None
      | Own se \<Rightarrow> if expires se < now then None else Some (Some (telegramId se)))"

section \<open>Sending a message: \<^verbatim>\<open>POST /api/chat/send\<close>\<close>

text \<open>
  \<^verbatim>\<open>updatePattern\<close> as the handler sees it: the knowledge base in memory is updated and
  written to its file, both only when the pattern was found.
\<close>

definition recordUsage :: "state \<Rightarrow> jsstring list \<Rightarrow> string \<Rightarrow> state" where
  "recordUsage s patternKeywords feedback =
     (case findIndex (\<lambda>p. keywordList p = patternKeywords) (knowledgeBase s) of
        None \<Rightarrow> s
      | Some index \<Rightarrow>
          (let kb = updatePattern (knowledgeBase s) patternKeywords feedback
           in s\<lparr>knowledgeBase := kb, knowledgeBaseFile := kb\<rparr>))"

text \<open>\<^verbatim>\<open>botAnalysis.confidence || 0.85\<close>: zero is falsy.\<close>

definition replyConfidence :: "analysis \<Rightarrow> real" where
  "replyConfidence botAnalysis =
     (if matchConfidence botAnalysis \<noteq> 0 then matchConfidence botAnalysis else 85 / 100)"

text \<open>What the handler holds between reading the log and writing it.\<close>

record sendLocal =
  localLog :: "message list"
  localResponse :: jsstring
  localRole :: role
  localAnalysis :: analysis

text \<open>
  From reading the chat log to the completed bot message: the handler reads the log,
  appends the user's message to its copy, asks the matcher, and either answers from the
  pattern (and records its use) or awaits the AI; then it appends the answer to its copy.
  Nothing is written to the log file yet.
\<close>

definition send_begin ::
  "(jsstring \<Rightarrow> jsstring) \<Rightarrow> (jsstring \<Rightarrow> completionOutcome) \<Rightarrow> state \<Rightarrow> string \<Rightarrow> jsstring \<Rightarrow>
   int \<Rightarrow> int \<Rightarrow> state \<times> sendLocal" where
  "send_begin lc create s cid text nowUser nowBot =
     (let userMessage = \<lparr>timestamp = nowUser, clientId = cid, role = User, content = text,
                          msgConfidence = None, adminId = None\<rparr>;
          log1 = chatLog s @ [userMessage];
          botAnalysis = analyzeMessage lc (confidenceThreshold s) (knowledgeBase s) text;
          (s1, reply, r) =
            (case match botAnalysis of
               Some m \<Rightarrow>
                 if \<not> shouldEscalate botAnalysis
                 then (recordUsage s (keywordList m) ''positive'', response m, Chatbot)
                 else (s, aiResponse (processMessage create text), Ai)
             | None \<Rightarrow> (s, aiResponse (processMessage create text), Ai));
          botMessage = \<lparr>timestamp = nowBot, clientId = cid, role = r, content = reply,
                         msgConfidence = Some (replyConfidence botAnalysis), adminId = None\<rparr>
      in (s1, \<lparr>localLog = log1 @ [botMessage], localResponse = reply, localRole = r,
               localAnalysis = botAnalysis\<rparr>))"

text \<open>\<^verbatim>\<open>analytics[today].total += 1; analytics[today][role] += 1\<close>, on a bucket created
  with four zeros when the day has none. The handlers call it with the roles
  \<^verbatim>\<open>chatbot\<close>, \<^verbatim>\<open>ai\<close> and \<^verbatim>\<open>admin\<close> only.\<close>

definition bumpRole :: "role \<Rightarrow> dayStats \<Rightarrow> dayStats" where
  "bumpRole r d =
     (case r of
        Chatbot \<Rightarrow> d\<lparr>chatbot := chatbot d + 1\<rparr>
      | Ai \<Rightarrow> d\<lparr>ai := ai d + 1\<rparr>
      | Admin \<Rightarrow> d\<lparr>admin := admin d + 1\<rparr>
      | User \<Rightarrow> d)"

definition recordDay :: "analytics \<Rightarrow> string \<Rightarrow> role \<Rightarrow> analytics" where
  "recordDay a today r =
     (let d = (case days a today of
                 None \<Rightarrow> \<lparr>total = 0, chatbot = 0, ai = 0, admin = 0\<rparr>
               | Some d \<Rightarrow> d)
      in a\<lparr>days := (days a)(today \<mapsto> bumpRole r (d\<lparr>total := total d + 1\<rparr>))\<rparr>)"

text \<open>
  From writing the log to the end: the handler's copy replaces the log file, then the
  analytics document is read, updated and written.
\<close>

definition send_commit :: "state \<Rightarrow> sendLocal \<Rightarrow> string \<Rightarrow> state" where
  "send_commit s loc today =
     (let s1 = s\<lparr>chatLog := localLog loc\<rparr>
      in s1\<lparr>analyticsFile := recordDay (analyticsFile s1) today (localRole loc)\<rparr>)"

text \<open>
  The handler, run without another request in between. \<open>errors\<close> are the messages of
  the request validators, \<open>nowUser\<close>, \<open>nowBot\<close> and \<open>nowReply\<close> the three readings of
  \<^verbatim>\<open>Date.now()\<close>, \<open>today\<close> the formatted date. The notification to the admin that
  follows catches its own failure and changes nothing that is modelled here.
\<close>

definition send ::
  "(jsstring \<Rightarrow> jsstring) \<Rightarrow> (jsstring \<Rightarrow> completionOutcome) \<Rightarrow> state \<Rightarrow> string list \<Rightarrow> string \<Rightarrow>
   jsstring \<Rightarrow> int \<Rightarrow> int \<Rightarrow> int \<Rightarrow> string \<Rightarrow> httpResponse \<times> state" where
  "send lc create s errors cid text nowUser nowBot nowReply today =
     (case errors of
        e # _ \<Rightarrow> (BadRequest e, s)
      | [] \<Rightarrow>
          (let (s1, loc) = send_begin lc create s cid text nowUser nowBot
           in (SendOk (localResponse loc) (localRole loc)
                 (replyConfidence (localAnalysis loc)) nowReply,
               send_commit s1 loc today)))"

section \<open>Polling: \<^verbatim>\<open>GET /api/chat/poll/:clientId\<close>\<close>

text \<open>
  \<open>parsed\<close> is \<^verbatim>\<open>parseInt(after)\<close>, \<open>None\<close> when it is not a number; with
  \<^verbatim>\<open>|| 0\<close> both that and zero give the watermark 0.
  \<^verbatim>\<open>Math.max(...newMessages.map(m => m.timestamp))\<close> passes one argument for each
  message that is returned: with more of them than the engine accepts the call throws,
  and the \<^verbatim>\<open>catch\<close> of the handler answers 500.
\<close>

definition poll :: "state \<Rightarrow> string \<Rightarrow> int option \<Rightarrow> httpResponse \<times> state" where
  "poll s cid parsed =
     (let afterTimestamp = (case parsed of None \<Rightarrow> 0 | Some n \<Rightarrow> n);
          newMessages =
            filter (\<lambda>msg. clientId msg = cid \<and> timestamp msg > afterTimestamp) (chatLog s)
      in case map timestamp newMessages of
           [] \<Rightarrow> (PollOk newMessages afterTimestamp, s)
         | t # ts \<Rightarrow>
             if length (t # ts) \<le> argumentLimit s
             then (PollOk newMessages (fold max ts t), s)
             else (ServerError ''Could not fetch new messages'', s))"

section \<open>Admin Session Authority: \<^verbatim>\<open>TelegramManager\<close> and \<^verbatim>\<open>POST /api/admin/verify-code\<close>\<close>

text \<open>\<open>newCode\<close> is the six random digits, \<open>delivered\<close> whether the push succeeded.\<close>

definition sendAuthCode :: "state \<Rightarrow> string \<Rightarrow> string \<Rightarrow> int \<Rightarrow> bool \<Rightarrow> bool \<times> state" where
  "sendAuthCode s tid newCode now delivered =
     (delivered,
      s\<lparr>authCodes := (authCodes s)(tid \<mapsto> \<lparr>code = newCode, codeExpires = now + 5 * 60 * 1000\<rparr>)\<rparr>)"

definition verifyAuthCode :: "state \<Rightarrow> string \<Rightarrow> string \<Rightarrow> int \<Rightarrow> bool \<times> state" where
  "verifyAuthCode s tid submitted now =
     (case authCodes s tid of
        None \<Rightarrow> (False, s)
      | Some authData \<Rightarrow>
          if now > codeExpires authData
          then (False, s\<lparr>authCodes := (authCodes s)(tid := None)\<rparr>)
          else if code authData = submitted
          then (True, s\<lparr>authCodes := (authCodes s)(tid := None)\<rparr>)
          else (False, s))"

text \<open>
  The handler; \<open>newToken\<close> is the UUID drawn for the session, \<open>nowVerify\<close>,
  \<open>nowCreated\<close> and \<open>nowExpires\<close> the three readings of the clock.
\<close>

definition verifyCode ::
  "state \<Rightarrow> string list \<Rightarrow> string \<Rightarrow> string \<Rightarrow> string \<Rightarrow> int \<Rightarrow> int \<Rightarrow> int \<Rightarrow> httpResponse \<times> state" where
  "verifyCode s errors tid submitted newToken nowVerify nowCreated nowExpires =
     (case errors of
        e # _ \<Rightarrow> (BadRequest e, s)
      | [] \<Rightarrow>
          if Some tid \<noteq> adminTelegramId s then (Forbidden, s)
          else
            (let (isValid, s1) = verifyAuthCode s tid submitted nowVerify in
             if isValid
             then (VerifyOk newToken,
                   s1\<lparr>adminSessions :=
                        setProperty (adminSessions s1) newToken
                          \<lparr>telegramId = tid, created = nowCreated,
                           expires = nowExpires + 24 * 60 * 60 * 1000\<rparr>\<rparr>)
             else (BadRequest ''Invalid or expired code'', s1)))"

section \<open>Takeover Manager: \<^verbatim>\<open>POST /api/admin/takeover\<close> and \<^verbatim>\<open>POST /api/admin/respond\<close>\<close>

definition takeoverGreeting :: jsstring where
  \<comment> \<open>the greeting the takeover appends\<close>
  "takeoverGreeting =
     [77, 101, 114, 104, 97, 98, 97, 33, 32, 66, 101, 110, 32, 103, 101,
      114, 231, 101, 107, 32, 98, 105, 114, 32, 100, 101, 115, 116, 101,
      107, 32, 117, 122, 109, 97, 110, 305, 121, 305, 109, 46, 32, 83, 105,
      122, 101, 32, 110, 97, 115, 305, 108, 32, 121, 97, 114, 100, 305,
      109, 99, 305, 32, 111, 108, 97, 98, 105, 108, 105, 114, 105, 109, 63]"

definition takeover ::
  "state \<Rightarrow> string list \<Rightarrow> string \<Rightarrow> string option \<Rightarrow> int \<Rightarrow> int \<Rightarrow> int \<Rightarrow> httpResponse \<times> state" where
  "takeover s errors conversationId authorization nowCheck nowRecord nowMessage =
     (case errors of
        e # _ \<Rightarrow> (BadRequest e, s)
      | [] \<Rightarrow>
          (case sessionGuard (adminSessions s) (bearerToken authorization) nowCheck of
             None \<Rightarrow> (Unauthorized, s)
           | Some sessionTelegramId \<Rightarrow>
               (let a = analyticsFile s;
                    a1 = a\<lparr>adminTakeovers :=
                            setProperty (adminTakeovers a) conversationId
                              \<lparr>takeoverTimestamp = nowRecord,
                               takeoverAdminId = sessionTelegramId, status = ''active''\<rparr>\<rparr>;
                    adminMessage = \<lparr>timestamp = nowMessage, clientId = conversationId,
                                    role = Admin, content = takeoverGreeting,
                                    msgConfidence = Some 1, adminId = None\<rparr>
                in (TakeoverOk,
                    s\<lparr>analyticsFile := a1, chatLog := chatLog s @ [adminMessage]\<rparr>))))"

definition respond ::
  "state \<Rightarrow> string list \<Rightarrow> string \<Rightarrow> jsstring \<Rightarrow> string option \<Rightarrow> int \<Rightarrow> int \<Rightarrow> string \<Rightarrow>
   httpResponse \<times> state" where
  "respond s errors conversationId text authorization nowCheck nowMessage today =
     (case errors of
        e # _ \<Rightarrow> (BadRequest e, s)
      | [] \<Rightarrow>
          (case sessionGuard (adminSessions s) (bearerToken authorization) nowCheck of
             None \<Rightarrow> (Unauthorized, s)
           | Some sessionTelegramId \<Rightarrow>
               (let adminMessage = \<lparr>timestamp = nowMessage, clientId = conversationId,
                                    role = Admin, content = text,
                                    msgConfidence = Some 1, adminId = sessionTelegramId\<rparr>
                in (RespondOk nowMessage,
                    s\<lparr>chatLog := chatLog s @ [adminMessage],
                      analyticsFile := recordDay (analyticsFile s) today Admin\<rparr>))))"

section \<open>The properties, in the words of the specification\<close>

text \<open>
  A keyword occurs in a message as a case-insensitive substring when, both taken to lower
  case, the keyword is a contiguous part of the message.
\<close>

definition occursIn :: "(jsstring \<Rightarrow> jsstring) \<Rightarrow> jsstring \<Rightarrow> jsstring \<Rightarrow> bool" where
  "occursIn lc message keyword = sublist (lc keyword) (lc message)"

text \<open>
  Weighted confidence: the number of the pattern's keywords that occur in the message,
  divided by the number of its keywords, times the pattern's confidence, the quotient and
  the product in the arithmetic of the code.
\<close>

definition weightedConfidence :: "(jsstring \<Rightarrow> jsstring) \<Rightarrow> jsstring \<Rightarrow> pattern \<Rightarrow> real" where
  "weightedConfidence lc message p =
     fmul (fdiv (real (length (filter (occursIn lc message) (keywordList p))))
             (real (length (keywordList p))))
       (confidence p)"

text \<open>The largest weighted confidence of a pattern set, and 0 when none is positive.\<close>

definition maximalWeighted :: "(jsstring \<Rightarrow> jsstring) \<Rightarrow> jsstring \<Rightarrow> pattern list \<Rightarrow> real" where
  "maximalWeighted lc message kb = Max (insert 0 (weightedConfidence lc message ` set kb))"

text \<open>The first pattern, in the order of the set, whose weighted confidence is \<open>M\<close>.\<close>

definition firstWithWeight ::
  "(jsstring \<Rightarrow> jsstring) \<Rightarrow> jsstring \<Rightarrow> pattern list \<Rightarrow> real \<Rightarrow> pattern option" where
  "firstWithWeight lc message kb M = find (\<lambda>p. weightedConfidence lc message p = M) kb"

subsection \<open>The scenarios\<close>

definition scenarioMessage :: jsstring where
  \<comment> \<open>altin fiyat nedir, with U+0131 for the dotless i\<close>
  "scenarioMessage =
     [97, 108, 116, 305, 110, 32, 102, 105, 121, 97, 116, 32, 110, 101,
      100, 105, 114]"

definition cargoMessage :: jsstring where
  \<comment> \<open>kargo ne zaman gelir\<close>
  "cargoMessage =
     [107, 97, 114, 103, 111, 32, 110, 101, 32, 122, 97, 109, 97, 110, 32,
      103, 101, 108, 105, 114]"

definition scenarioResponse :: jsstring where
  \<comment> \<open>R1\<close>
  "scenarioResponse =
     [82, 49]"

definition kw_nedir :: jsstring where
  \<comment> \<open>nedir\<close>
  "kw_nedir =
     [110, 101, 100, 105, 114]"

definition rivalResponse :: jsstring where
  \<comment> \<open>R0\<close>
  "rivalResponse =
     [82, 48]"

definition scenarioPattern :: pattern where
  "scenarioPattern =
     \<lparr>keywordList = [kw_altin, kw_fiyat], response = scenarioResponse,
      confidence = literal 8 10, usage = 0\<rparr>"

definition rivalPattern :: pattern where
  "rivalPattern =
     \<lparr>keywordList = [kw_nedir], response = rivalResponse, confidence = 1, usage = 0\<rparr>"

text \<open>
  Two pattern sets on which rounding decides: four of five keywords at confidence 0.9
  against one keyword at confidence 0.72, and one of three keywords at confidence 0.3
  with the threshold 0.1.
\<close>

definition kw_at :: jsstring where
  \<comment> \<open>at\<close>
  "kw_at =
     [97, 116]"

definition roundingRival :: pattern where
  "roundingRival =
     \<lparr>keywordList = [kw_nedir], response = rivalResponse, confidence = literal 72 100,
      usage = 0\<rparr>"

definition roundingPattern :: pattern where
  "roundingPattern =
     \<lparr>keywordList = [kw_altin, kw_fiyat, kw_nedir, kw_at, kw_para],
      response = scenarioResponse, confidence = literal 9 10, usage = 0\<rparr>"

definition faintPattern :: pattern where
  "faintPattern =
     \<lparr>keywordList = [kw_altin, kw_para, kw_transfer], response = scenarioResponse,
      confidence = literal 3 10, usage = 0\<rparr>"

definition emptyState :: state where
  "emptyState =
     \<lparr>chatLog = [], analyticsFile = \<lparr>days = Map.empty, adminTakeovers = Map.empty\<rparr>,
      adminSessions = Map.empty, knowledgeBaseFile = defaultKnowledgeBase,
      knowledgeBase = defaultKnowledgeBase, confidenceThreshold = literal 7 10,
      authCodes = Map.empty, adminTelegramId = Some ''123456789'', argumentLimit = 125000\<rparr>"

subsection \<open>Feedback sequences\<close>



subsection \<open>Two sends on one conversation\<close>

definition userMessageOf :: "string \<Rightarrow> jsstring \<Rightarrow> int \<Rightarrow> message" where
  "userMessageOf cid text now =
     \<lparr>timestamp = now, clientId = cid, role = User, content = text, msgConfidence = None,
      adminId = None\<rparr>"

text \<open>
  The handler suspends at each \<^verbatim>\<open>await\<close>, and another request may run in between.
  Here request A reads the log, request B reads the log, then A writes and B writes:
  each execution lies between the read and the write of the other.
\<close>

definition sendInterleaved ::
  "(jsstring \<Rightarrow> jsstring) \<Rightarrow> (jsstring \<Rightarrow> completionOutcome) \<Rightarrow> state \<Rightarrow> string \<Rightarrow>
   jsstring \<Rightarrow> int \<Rightarrow> int \<Rightarrow> jsstring \<Rightarrow> int \<Rightarrow> int \<Rightarrow> string \<Rightarrow> state" where
  "sendInterleaved lc create s cid textA nowUserA nowBotA textB nowUserB nowBotB today =
     (let (s1, locA) = send_begin lc create s cid textA nowUserA nowBotA;
          (s2, locB) = send_begin lc create s1 cid textB nowUserB nowBotB;
          s3 = send_commit s2 locA today
      in send_commit s3 locB today)"

text \<open>The same two requests, B starting after A has finished.\<close>

definition sendSequential ::
  "(jsstring \<Rightarrow> jsstring) \<Rightarrow> (jsstring \<Rightarrow> completionOutcome) \<Rightarrow> state \<Rightarrow> string \<Rightarrow>
   jsstring \<Rightarrow> int \<Rightarrow> int \<Rightarrow> jsstring \<Rightarrow> int \<Rightarrow> int \<Rightarrow> string \<Rightarrow> state" where
  "sendSequential lc create s cid textA nowUserA nowBotA textB nowUserB nowBotB today =
     snd (send lc create
            (snd (send lc create s [] cid textA nowUserA nowBotA nowBotA today))
            [] cid textB nowUserB nowBotB nowBotB today)"

subsection \<open>Daily buckets\<close>

definition bucketInvariant :: "dayStats \<Rightarrow> bool" where
  "bucketInvariant d =
     (total d = chatbot d + ai d + admin d \<and>
      0 \<le> total d \<and> 0 \<le> chatbot d \<and> 0 \<le> ai d \<and> 0 \<le> admin d)"

text \<open>The bucket of a day, if the day has one, satisfies the invariant.\<close>

definition dayInvariant :: "analytics \<Rightarrow> string \<Rightarrow> bool" where
  "dayInvariant a day = (case days a day of None \<Rightarrow> True | Some d \<Rightarrow> bucketInvariant d)"

definition bucketLe :: "dayStats \<Rightarrow> dayStats \<Rightarrow> bool" where
  "bucketLe d d' =
     (total d \<le> total d' \<and> chatbot d \<le> chatbot d' \<and> ai d \<le> ai d' \<and> admin d \<le> admin d')"

text \<open>No counter of the day is lower in \<open>a'\<close> than in \<open>a\<close>, and no bucket has gone.\<close>

definition dayLe :: "analytics \<Rightarrow> analytics \<Rightarrow> string \<Rightarrow> bool" where
  "dayLe a a' day =
     (case days a day of
        None \<Rightarrow> True
      | Some d \<Rightarrow> (case days a' day of None \<Rightarrow> False | Some d' \<Rightarrow> bucketLe d d'))"

text \<open>
  The operations of the server that are modelled, with their inputs. A request for a code
  stands for \<^verbatim>\<open>sendAuthCode\<close>, which the handler calls once the request has passed its
  checks.
\<close>

datatype operation =
    SendOp "string list" string jsstring int int int string
  | RespondOp "string list" string jsstring "string option" int int string
  | TakeoverOp "string list" string "string option" int int int
  | PollOp string "int option"
  | RequestCodeOp string string int bool
  | VerifyCodeOp "string list" string string string int int int

definition perform ::
  "(jsstring \<Rightarrow> jsstring) \<Rightarrow> (jsstring \<Rightarrow> completionOutcome) \<Rightarrow> state \<Rightarrow> operation \<Rightarrow> state" where
  "perform lc create s op =
     (case op of
        SendOp errors cid text nowUser nowBot nowReply today \<Rightarrow>
          snd (send lc create s errors cid text nowUser nowBot nowReply today)
      | RespondOp errors cid text authorization nowCheck nowMessage today \<Rightarrow>
          snd (respond s errors cid text authorization nowCheck nowMessage today)
      | TakeoverOp errors cid authorization nowCheck nowRecord nowMessage \<Rightarrow>
          snd (takeover s errors cid authorization nowCheck nowRecord nowMessage)
      | PollOp cid parsed \<Rightarrow> snd (poll s cid parsed)
      | RequestCodeOp tid newCode now delivered \<Rightarrow>
          snd (sendAuthCode s tid newCode now delivered)
      | VerifyCodeOp errors tid submitted newToken nowVerify nowCreated nowExpires \<Rightarrow>
          snd (verifyCode s errors tid submitted newToken nowVerify nowCreated nowExpires))"

definition performAll ::
  "(jsstring \<Rightarrow> jsstring) \<Rightarrow> (jsstring \<Rightarrow> completionOutcome) \<Rightarrow> state \<Rightarrow> operation list \<Rightarrow> state" where
  "performAll lc create s ops = fold (\<lambda>op s'. perform lc create s' op) ops s"

subsection \<open>A log of two conversations\<close>

definition exampleLog :: "message list" where
  "exampleLog =
     [\<lparr>timestamp = 10, clientId = ''c1'', role = User, content = cargoMessage,
       msgConfidence = None, adminId = None\<rparr>,
      \<lparr>timestamp = 12, clientId = ''c1'', role = Ai, content = fallbackResponse,
       msgConfidence = Some (85 / 100), adminId = None\<rparr>,
      \<lparr>timestamp = 15, clientId = ''c2'', role = User, content = scenarioMessage,
       msgConfidence = None, adminId = None\<rparr>]"

text \<open>A log with 200000 messages of one client.\<close>

definition longLog :: "message list" where
  "longLog = replicate 200000 (userMessageOf ''c1'' cargoMessage 1)"

subsection \<open>A state with a pending code\<close>

text \<open>The admin has requested a code at time 0; it expires at 300000.\<close>

definition pendingState :: state where
  "pendingState = snd (sendAuthCode emptyState ''123456789'' ''123456'' 0 True)"

subsection \<open>A state after one message\<close>

definition busyState :: state where
  "busyState =
     snd (send asciiLower (\<lambda>_. Rejected) emptyState [] ''c1'' cargoMessage 1000 1001 1002
            ''2024-05-01'')"

section \<open>Rounding, evaluated\<close>

lemma exponentUp_step:
  "0 < n \<Longrightarrow> exponentUp n a = (if a < 2 then 0 else 1 + exponentUp (n - 1) (a / 2))"
  by (cases n) simp_all

lemma exponentDown_step:
  "0 < n \<Longrightarrow> exponentDown n a = (if 1 \<le> a then 0 else exponentDown (n - 1) (2 * a) - 1)"
  by (cases n) simp_all

lemmas roundDouble_eval =
  roundDouble_def ulp_def binaryExponent_def exponentUp_step exponentDown_step pow2_def
  roundHalfEven_def

lemma roundDouble_zero: "roundDouble 0 = 0"
  by (simp add: roundDouble_def)

lemma roundDouble_one: "roundDouble 1 = 1"
  by (simp add: roundDouble_eval)

lemmas double_eval = literal_def fdiv_def fmul_def roundDouble_eval

text \<open>The literals 0.7, 0.8, 0.9, 0.72, 0.3 and 0.1 of the scenarios, as doubles.\<close>

lemma literal_values:
  "literal 7 10 = 3152519739159347 / 4503599627370496"
  "literal 8 10 = 3602879701896397 / 4503599627370496"
  "literal 9 10 = 8106479329266893 / 9007199254740992"
  "literal 72 100 = 3242591731706757 / 4503599627370496"
  "literal 3 10 = 5404319552844595 / 18014398509481984"
  "literal 1 10 = 3602879701896397 / 36028797018963968"
  by (simp_all add: double_eval)

text \<open>
  The quotients and products of the scenarios: 2/2 times 0.8 is 0.8, 1/3 times 0.8 is
  0.26666666666666666, 4/5 times 0.9 is 0.7200000000000001 and 1/3 times 0.3 is
  0.09999999999999999.
\<close>

lemma weigh_values:
  "fmul (fdiv 2 2) (literal 8 10) = literal 8 10"
  "fmul (fdiv 1 1) 1 = 1"
  "fmul (fdiv 1 3) (literal 8 10) = 4803839602528529 / 18014398509481984"
  "fmul (fdiv 4 5) (literal 9 10) = 6485183463413515 / 9007199254740992"
  "fmul (fdiv 1 3) (literal 3 10) = 7205759403792793 / 72057594037927936"
  "fmul (fdiv 1 1) (literal 72 100) = literal 72 100"
  by (simp_all add: double_eval)

lemma weigh_none: "fmul (fdiv 0 y) c = 0"
  by (simp add: fmul_def fdiv_def roundDouble_zero)

lemma literal_order:
  "0 < literal 7 10" "0 < literal 8 10" "literal 7 10 < literal 8 10" "literal 8 10 < 1"
  "literal 8 10 \<noteq> 0"
  by (simp_all add: literal_values)

section \<open>The Knowledge Matcher computes the best match\<close>

lemma str_includes_sublist: "str_includes hay needle = sublist needle hay"
  by (induction hay) (simp_all add: sublist_Cons_right)

lemma scoreLoop_count:
  "scoreLoop lc (lc message) ks n = n + length (filter (occursIn lc message) ks)"
  by (induction ks arbitrary: n) (simp_all add: occursIn_def str_includes_sublist)

lemma Max_insert_absorb:
  fixes h c :: real
  assumes "finite S" and "h \<le> c"
  shows "Max (insert h (insert c S)) = Max (insert c S)"
proof -
  have "c \<le> Max (insert c S)" using assms(1) by simp
  then have "max h (Max (insert c S)) = Max (insert c S)" using assms(2) by simp
  moreover have "Max (insert h (insert c S)) = max h (Max (insert c S))"
    using assms(1) by (intro Max_insert) auto
  ultimately show ?thesis by simp
qed

lemma analyzeLoop_spec:
  "0 \<le> hs \<Longrightarrow>
   analyzeLoop lc (lc m) kb (best, hs) =
     (let M = Max (insert hs (weightedConfidence lc m ` set kb)) in
      (if hs < M then map_option (\<lambda>p. withCalculated p M) (find (\<lambda>p. weightedConfidence lc m p = M) kb)
       else best, M))"
proof (induction kb arbitrary: best hs)
  case Nil
  then show ?case by simp
next
  case (Cons p ps)
  let ?wc = "weightedConfidence lc m"
  let ?c = "?wc p"
  let ?S = "?wc ` set ps"
  let ?n = "length (filter (occursIn lc m) (keywordList p))"
  have fin: "finite ?S" by simp
  have score: "scoreLoop lc (lc m) (keywordList p) 0 = ?n"
    by (simp add: scoreLoop_count)
  have c_def: "?c = fmul (fdiv (real ?n) (real (length (keywordList p)))) (confidence p)"
    by (simp add: weightedConfidence_def)
  have img: "?wc ` set (p # ps) = insert ?c ?S" by simp
  show ?case
  proof (cases "0 < ?n \<and> hs < ?c")
    case True
    then have c0: "0 \<le> ?c" using Cons.prems by linarith
    have M1: "Max (insert hs (?wc ` set (p # ps))) = Max (insert ?c ?S)"
      unfolding img using True by (intro Max_insert_absorb [OF fin]) simp
    have geM: "?c \<le> Max (insert ?c ?S)" using fin by simp
    have step: "analyzeLoop lc (lc m) (p # ps) (best, hs) =
        analyzeLoop lc (lc m) ps (Some (withCalculated p ?c), ?c)"
      using True score c_def by (simp add: Let_def)
    show ?thesis
    proof (cases "?c < Max (insert ?c ?S)")
      case lt: True
      then have "hs < Max (insert ?c ?S)" using True by linarith
      moreover have "?c \<noteq> Max (insert ?c ?S)" using lt by simp
      ultimately show ?thesis
        unfolding step Cons.IH [OF c0] M1 using lt by (simp add: Let_def)
    next
      case ge: False
      then have eq: "Max (insert ?c ?S) = ?c" using geM by linarith
      show ?thesis
        unfolding step Cons.IH [OF c0] M1 eq using True by (simp add: Let_def)
    qed
  next
    case False
    have le: "?c \<le> hs"
    proof (cases "0 < ?n")
      case True then show ?thesis using False by simp
    next
      case False then show ?thesis using Cons.prems c_def by (simp add: weigh_none)
    qed
    have step: "analyzeLoop lc (lc m) (p # ps) (best, hs) = analyzeLoop lc (lc m) ps (best, hs)"
      using False score c_def by (auto simp: Let_def)
    have M1: "Max (insert hs (?wc ` set (p # ps))) = Max (insert hs ?S)"
      unfolding img using Max_insert_absorb [OF fin le] by (simp add: insert_commute)
    have geM: "hs \<le> Max (insert hs ?S)" using fin by simp
    have ne: "hs < Max (insert hs ?S) \<Longrightarrow> ?c \<noteq> Max (insert hs ?S)" using le by linarith
    show ?thesis
      unfolding step Cons.IH [OF Cons.prems] M1 using ne by (simp add: Let_def)
  qed
qed

lemma analyzeMessage_spec:
  "analyzeMessage lc thr kb m =
     \<lparr>match = (if 0 < maximalWeighted lc m kb
               then map_option (\<lambda>p. withCalculated p (maximalWeighted lc m kb))
                      (firstWithWeight lc m kb (maximalWeighted lc m kb))
               else None),
      matchConfidence = maximalWeighted lc m kb,
      shouldEscalate = (maximalWeighted lc m kb < thr)\<rparr>"
  using analyzeLoop_spec [of 0 lc m kb None]
  by (simp add: analyzeMessage_def maximalWeighted_def firstWithWeight_def Let_def)

lemma asciiLower_scenarioMessage: "asciiLower scenarioMessage = scenarioMessage"
  by (simp add: asciiLower_def asciiLowerUnit_def scenarioMessage_def)

lemma asciiLower_cargoMessage: "asciiLower cargoMessage = cargoMessage"
  by (simp add: asciiLower_def asciiLowerUnit_def cargoMessage_def)

lemma asciiLower_keywords:
  "asciiLower kw_altin = kw_altin" "asciiLower kw_fiyat = kw_fiyat" "asciiLower kw_nedir = kw_nedir"
  "asciiLower kw_merhaba = kw_merhaba" "asciiLower kw_selam = kw_selam" "asciiLower kw_hey = kw_hey"
  "asciiLower kw_hi = kw_hi" "asciiLower kw_para = kw_para" "asciiLower kw_transfer = kw_transfer"
  "asciiLower kw_ucret = kw_ucret" "asciiLower kw_ne_kadar = kw_ne_kadar"
  "asciiLower kw_depolama = kw_depolama" "asciiLower kw_agil = kw_agil" "asciiLower kw_ambar = kw_ambar"
  "asciiLower kw_makine = kw_makine" "asciiLower kw_uretim = kw_uretim" "asciiLower kw_seviye = kw_seviye"
  by (simp_all add: asciiLower_def asciiLowerUnit_def kw_altin_def kw_fiyat_def kw_nedir_def
      kw_merhaba_def kw_selam_def kw_hey_def kw_hi_def kw_para_def kw_transfer_def kw_ucret_def
      kw_ne_kadar_def kw_depolama_def kw_agil_def kw_ambar_def kw_makine_def kw_uretim_def kw_seviye_def)

lemma occurs_scenario:
  "occursIn asciiLower scenarioMessage kw_altin" "occursIn asciiLower scenarioMessage kw_fiyat"
  "occursIn asciiLower scenarioMessage kw_nedir"
  "\<not> occursIn asciiLower scenarioMessage kw_merhaba" "\<not> occursIn asciiLower scenarioMessage kw_selam"
  "\<not> occursIn asciiLower scenarioMessage kw_hey" "\<not> occursIn asciiLower scenarioMessage kw_hi"
  "\<not> occursIn asciiLower scenarioMessage kw_para" "\<not> occursIn asciiLower scenarioMessage kw_transfer"
  "\<not> occursIn asciiLower scenarioMessage kw_ucret" "\<not> occursIn asciiLower scenarioMessage kw_ne_kadar"
  "\<not> occursIn asciiLower scenarioMessage kw_depolama" "\<not> occursIn asciiLower scenarioMessage kw_agil"
  "\<not> occursIn asciiLower scenarioMessage kw_ambar" "\<not> occursIn asciiLower scenarioMessage kw_makine"
  "\<not> occursIn asciiLower scenarioMessage kw_uretim" "\<not> occursIn asciiLower scenarioMessage kw_seviye"
  unfolding occursIn_def asciiLower_keywords asciiLower_scenarioMessage str_includes_sublist [symmetric]
  by (simp_all add: scenarioMessage_def kw_altin_def kw_fiyat_def kw_nedir_def
      kw_merhaba_def kw_selam_def kw_hey_def kw_hi_def kw_para_def kw_transfer_def kw_ucret_def
      kw_ne_kadar_def kw_depolama_def kw_agil_def kw_ambar_def kw_makine_def kw_uretim_def kw_seviye_def)

lemma occurs_cargo:
  "\<not> occursIn asciiLower cargoMessage kw_altin" "\<not> occursIn asciiLower cargoMessage kw_fiyat"
  "\<not> occursIn asciiLower cargoMessage kw_merhaba" "\<not> occursIn asciiLower cargoMessage kw_selam"
  "\<not> occursIn asciiLower cargoMessage kw_hey" "\<not> occursIn asciiLower cargoMessage kw_hi"
  "\<not> occursIn asciiLower cargoMessage kw_para" "\<not> occursIn asciiLower cargoMessage kw_transfer"
  "\<not> occursIn asciiLower cargoMessage kw_ucret" "\<not> occursIn asciiLower cargoMessage kw_ne_kadar"
  "\<not> occursIn asciiLower cargoMessage kw_depolama" "\<not> occursIn asciiLower cargoMessage kw_agil"
  "\<not> occursIn asciiLower cargoMessage kw_ambar" "\<not> occursIn asciiLower cargoMessage kw_makine"
  "\<not> occursIn asciiLower cargoMessage kw_uretim" "\<not> occursIn asciiLower cargoMessage kw_seviye"
  unfolding occursIn_def asciiLower_keywords asciiLower_cargoMessage str_includes_sublist [symmetric]
  by (simp_all add: cargoMessage_def kw_altin_def kw_fiyat_def
      kw_merhaba_def kw_selam_def kw_hey_def kw_hi_def kw_para_def kw_transfer_def kw_ucret_def
      kw_ne_kadar_def kw_depolama_def kw_agil_def kw_ambar_def kw_makine_def kw_uretim_def kw_seviye_def)

lemma weighted_scenario:
  "weightedConfidence asciiLower scenarioMessage scenarioPattern = literal 8 10"
  "weightedConfidence asciiLower scenarioMessage rivalPattern = 1"
  by (simp_all add: weightedConfidence_def scenarioPattern_def rivalPattern_def occurs_scenario
      weigh_values)

lemma weighted_default_scenario:
  "map (weightedConfidence asciiLower scenarioMessage) defaultKnowledgeBase =
     [0, 4803839602528529 / 18014398509481984, 4803839602528529 / 18014398509481984, 0, 0]"
  by (simp add: weightedConfidence_def defaultKnowledgeBase_def occurs_scenario weigh_values
      weigh_none)

lemma weighted_default_cargo:
  "map (weightedConfidence asciiLower cargoMessage) defaultKnowledgeBase = [0, 0, 0, 0, 0]"
  by (simp add: weightedConfidence_def defaultKnowledgeBase_def occurs_cargo weigh_none)

lemma maximalWeighted_nonneg: "0 \<le> maximalWeighted lc m kb"
  by (simp add: maximalWeighted_def)

lemma maximalWeighted_ge:
  "p \<in> set kb \<Longrightarrow> weightedConfidence lc m p \<le> maximalWeighted lc m kb"
  by (simp add: maximalWeighted_def)

lemma maximalWeighted_attained:
  assumes "0 < maximalWeighted lc m kb"
  shows "\<exists>p. firstWithWeight lc m kb (maximalWeighted lc m kb) = Some p"
proof -
  let ?M = "maximalWeighted lc m kb"
  have "?M \<in> insert 0 (weightedConfidence lc m ` set kb)"
    unfolding maximalWeighted_def by (intro Max_in) auto
  with assms obtain p where "p \<in> set kb" "weightedConfidence lc m p = ?M" by auto
  then have "find (\<lambda>p. weightedConfidence lc m p = ?M) kb \<noteq> None"
    by (auto simp: find_None_iff)
  then show ?thesis by (auto simp: firstWithWeight_def)
qed

lemma firstWithWeight_weight:
  "firstWithWeight lc m kb M = Some p \<Longrightarrow> weightedConfidence lc m p = M"
  by (auto simp: firstWithWeight_def find_Some_iff)

lemma maximalWeighted_no_occurrence:
  assumes "\<forall>p \<in> set kb. \<forall>k \<in> set (keywordList p). \<not> occursIn lc m k"
  shows "maximalWeighted lc m kb = 0"
proof -
  have "weightedConfidence lc m p = 0" if "p \<in> set kb" for p
  proof -
    have "filter (occursIn lc m) (keywordList p) = []"
      using assms that by (auto simp: filter_empty_conv)
    then show ?thesis by (simp add: weightedConfidence_def weigh_none)
  qed
  then have single: "insert 0 (weightedConfidence lc m ` set kb) = {0}" by auto
  show ?thesis unfolding maximalWeighted_def single by simp
qed

lemma send_accepted:
  "send lc create s [] cid text nowUser nowBot nowReply today =
     (SendOk (localResponse (snd (send_begin lc create s cid text nowUser nowBot)))
        (localRole (snd (send_begin lc create s cid text nowUser nowBot)))
        (replyConfidence (localAnalysis (snd (send_begin lc create s cid text nowUser nowBot))))
        nowReply,
      send_commit (fst (send_begin lc create s cid text nowUser nowBot))
        (snd (send_begin lc create s cid text nowUser nowBot)) today)"
  by (simp add: send_def split_beta)

lemma send_begin_escalated:
  assumes "shouldEscalate (analyzeMessage lc (confidenceThreshold s) (knowledgeBase s) text)
           \<or> match (analyzeMessage lc (confidenceThreshold s) (knowledgeBase s) text) = None"
  shows "send_begin lc create s cid text nowUser nowBot =
     (s, \<lparr>localLog = chatLog s @
            [\<lparr>timestamp = nowUser, clientId = cid, role = User, content = text,
              msgConfidence = None, adminId = None\<rparr>,
             \<lparr>timestamp = nowBot, clientId = cid, role = Ai,
              content = aiResponse (processMessage create text),
              msgConfidence = Some (replyConfidence
                (analyzeMessage lc (confidenceThreshold s) (knowledgeBase s) text)),
              adminId = None\<rparr>],
          localResponse = aiResponse (processMessage create text), localRole = Ai,
          localAnalysis = analyzeMessage lc (confidenceThreshold s) (knowledgeBase s) text\<rparr>)"
  using assms by (auto simp: send_begin_def Let_def split: option.splits)

lemma send_begin_matched:
  assumes "\<not> shouldEscalate (analyzeMessage lc (confidenceThreshold s) (knowledgeBase s) text)"
    and "match (analyzeMessage lc (confidenceThreshold s) (knowledgeBase s) text) = Some m"
  shows "send_begin lc create s cid text nowUser nowBot =
     (recordUsage s (keywordList m) ''positive'',
      \<lparr>localLog = chatLog s @
            [\<lparr>timestamp = nowUser, clientId = cid, role = User, content = text,
              msgConfidence = None, adminId = None\<rparr>,
             \<lparr>timestamp = nowBot, clientId = cid, role = Chatbot,
              content = response m,
              msgConfidence = Some (replyConfidence
                (analyzeMessage lc (confidenceThreshold s) (knowledgeBase s) text)),
              adminId = None\<rparr>],
          localResponse = response m, localRole = Chatbot,
          localAnalysis = analyzeMessage lc (confidenceThreshold s) (knowledgeBase s) text\<rparr>)"
  using assms by (simp add: send_begin_def Let_def)

text \<open>
  Claim C1, as the code has it. For every message, pattern set and threshold the returned
  confidence is the largest weighted confidence of the set, the quotient and the product
  each rounded to a double as the code computes them, and 0 when no pattern has a
  positive one; the returned match is the first pattern, in the order of the set, that
  attains it when it is positive, and none otherwise; \<open>shouldEscalate\<close> holds exactly when
  that confidence is below the threshold. For the message of the scenario, threshold 0.7
  and any pattern set holding the scenario's pattern there is a match, a confidence of at
  least 0.8 and no escalation; when the scenario's pattern is the first to attain the
  maximum, the confidence is 0.8 and the handler replies R1 as the chatbot.
\<close>

theorem analyzeMessage_best_match:
  "matchConfidence (analyzeMessage lc thr kb m) = maximalWeighted lc m kb \<and>
   match (analyzeMessage lc thr kb m) =
     (if 0 < maximalWeighted lc m kb
      then map_option (\<lambda>p. withCalculated p (maximalWeighted lc m kb))
             (firstWithWeight lc m kb (maximalWeighted lc m kb))
      else None) \<and>
   shouldEscalate (analyzeMessage lc thr kb m) = (maximalWeighted lc m kb < thr) \<and>
   (scenarioPattern \<in> set kb \<longrightarrow>
      \<not> shouldEscalate (analyzeMessage asciiLower (literal 7 10) kb scenarioMessage) \<and>
      match (analyzeMessage asciiLower (literal 7 10) kb scenarioMessage) \<noteq> None \<and>
      literal 8 10 \<le> matchConfidence (analyzeMessage asciiLower (literal 7 10) kb scenarioMessage)) \<and>
   (firstWithWeight asciiLower scenarioMessage kb (maximalWeighted asciiLower scenarioMessage kb)
      = Some scenarioPattern \<longrightarrow>
      analyzeMessage asciiLower (literal 7 10) kb scenarioMessage =
        \<lparr>match = Some (withCalculated scenarioPattern (literal 8 10)), matchConfidence = literal 8 10,
         shouldEscalate = False\<rparr> \<and>
      fst (send asciiLower create (s\<lparr>knowledgeBase := kb, confidenceThreshold := literal 7 10\<rparr>) []
             cid scenarioMessage nowUser nowBot nowReply today) =
        SendOk scenarioResponse Chatbot (literal 8 10) nowReply)"
proof (intro conjI impI)
  show "matchConfidence (analyzeMessage lc thr kb m) = maximalWeighted lc m kb"
    by (simp add: analyzeMessage_spec)
  show "match (analyzeMessage lc thr kb m) =
     (if 0 < maximalWeighted lc m kb
      then map_option (\<lambda>p. withCalculated p (maximalWeighted lc m kb))
             (firstWithWeight lc m kb (maximalWeighted lc m kb))
      else None)"
    by (simp add: analyzeMessage_spec)
  show "shouldEscalate (analyzeMessage lc thr kb m) = (maximalWeighted lc m kb < thr)"
    by (simp add: analyzeMessage_spec)
next
  let ?M = "maximalWeighted asciiLower scenarioMessage kb"
  assume "scenarioPattern \<in> set kb"
  then have ge: "literal 8 10 \<le> ?M"
    using maximalWeighted_ge [of scenarioPattern kb asciiLower scenarioMessage]
    by (simp add: weighted_scenario)
  then show "\<not> shouldEscalate (analyzeMessage asciiLower (literal 7 10) kb scenarioMessage)"
    using literal_order(3) by (simp add: analyzeMessage_spec)
  from ge have "0 < ?M" using literal_order(2) by simp
  then show "match (analyzeMessage asciiLower (literal 7 10) kb scenarioMessage) \<noteq> None"
    using maximalWeighted_attained [of asciiLower scenarioMessage kb]
    by (auto simp: analyzeMessage_spec)
  from ge show "literal 8 10 \<le> matchConfidence (analyzeMessage asciiLower (literal 7 10) kb scenarioMessage)"
    by (simp add: analyzeMessage_spec)
next
  let ?M = "maximalWeighted asciiLower scenarioMessage kb"
  let ?s = "s\<lparr>knowledgeBase := kb, confidenceThreshold := literal 7 10\<rparr>"
  assume first: "firstWithWeight asciiLower scenarioMessage kb ?M = Some scenarioPattern"
  then have M: "?M = literal 8 10"
    using firstWithWeight_weight [OF first] by (simp add: weighted_scenario)
  show r: "analyzeMessage asciiLower (literal 7 10) kb scenarioMessage =
        \<lparr>match = Some (withCalculated scenarioPattern (literal 8 10)), matchConfidence = literal 8 10,
         shouldEscalate = False\<rparr>"
    using first literal_order by (simp add: analyzeMessage_spec M)
  have "send_begin asciiLower create ?s cid scenarioMessage nowUser nowBot =
     (recordUsage ?s (keywordList (withCalculated scenarioPattern (literal 8 10))) ''positive'',
      \<lparr>localLog = chatLog ?s @
            [\<lparr>timestamp = nowUser, clientId = cid, role = User, content = scenarioMessage,
              msgConfidence = None, adminId = None\<rparr>,
             \<lparr>timestamp = nowBot, clientId = cid, role = Chatbot,
              content = response (withCalculated scenarioPattern (literal 8 10)),
              msgConfidence = Some (replyConfidence
                (analyzeMessage asciiLower (confidenceThreshold ?s) (knowledgeBase ?s) scenarioMessage)),
              adminId = None\<rparr>],
          localResponse = response (withCalculated scenarioPattern (literal 8 10)), localRole = Chatbot,
          localAnalysis = analyzeMessage asciiLower (confidenceThreshold ?s) (knowledgeBase ?s)
            scenarioMessage\<rparr>)"
    by (rule send_begin_matched) (simp_all add: r)
  then show "fst (send asciiLower create ?s [] cid scenarioMessage nowUser nowBot nowReply today) =
        SendOk scenarioResponse Chatbot (literal 8 10) nowReply"
    using literal_order(5)
    by (simp add: send_accepted r replyConfidence_def withCalculated_def scenarioPattern_def)
qed

lemma maximalWeighted_scenario_default:
  "maximalWeighted asciiLower scenarioMessage (defaultKnowledgeBase @ [scenarioPattern]) = literal 8 10"
proof -
  have "weightedConfidence asciiLower scenarioMessage ` set (defaultKnowledgeBase @ [scenarioPattern])
        = set (map (weightedConfidence asciiLower scenarioMessage) defaultKnowledgeBase @
               [weightedConfidence asciiLower scenarioMessage scenarioPattern])"
    by simp
  then show ?thesis
    unfolding maximalWeighted_def weighted_default_scenario weighted_scenario
    by (simp add: literal_values)
qed

lemma find_append_None: "find P xs = None \<Longrightarrow> find P (xs @ ys) = find P ys"
  by (induction xs) (auto split: if_splits)

lemma send_reply_matched:
  assumes "analyzeMessage lc (confidenceThreshold s) (knowledgeBase s) text =
             \<lparr>match = Some m, matchConfidence = c, shouldEscalate = False\<rparr>"
  shows "fst (send lc create s [] cid text nowUser nowBot nowReply today) =
           SendOk (response m) Chatbot (if c \<noteq> 0 then c else 85 / 100) nowReply"
  by (simp add: send_def send_begin_def Let_def assms replyConfidence_def split_beta)

lemma firstWithWeight_scenario_default:
  "firstWithWeight asciiLower scenarioMessage (defaultKnowledgeBase @ [scenarioPattern]) (literal 8 10)
     = Some scenarioPattern"
proof -
  have "literal 8 10 \<notin> set (map (weightedConfidence asciiLower scenarioMessage) defaultKnowledgeBase)"
    unfolding weighted_default_scenario by (simp add: literal_values)
  then have "\<forall>p \<in> set defaultKnowledgeBase.
      weightedConfidence asciiLower scenarioMessage p \<noteq> literal 8 10"
    by (metis image_eqI set_map)
  then have "find (\<lambda>p. weightedConfidence asciiLower scenarioMessage p = literal 8 10) defaultKnowledgeBase = None"
    by (simp add: find_None_iff)
  then show ?thesis
    by (simp add: firstWithWeight_def find_append_None weighted_scenario)
qed

text \<open>
  Rounding decides as it does in the code. Four of five keywords at the confidence 0.9
  weigh 0.7200000000000001, which is above the 0.72 of the pattern before, so that the
  later pattern is returned; one of three keywords at the confidence 0.3 weighs
  0.09999999999999999, which is below the threshold 0.1, so that the message is escalated.
\<close>

lemma occurs_at: "occursIn asciiLower scenarioMessage kw_at"
  unfolding occursIn_def asciiLower_scenarioMessage str_includes_sublist [symmetric]
  by (simp add: asciiLower_def asciiLowerUnit_def scenarioMessage_def kw_at_def)

lemma weighted_rounding:
  "weightedConfidence asciiLower scenarioMessage roundingRival = literal 72 100"
  "weightedConfidence asciiLower scenarioMessage roundingPattern =
     6485183463413515 / 9007199254740992"
  "weightedConfidence asciiLower scenarioMessage faintPattern =
     7205759403792793 / 72057594037927936"
  by (simp_all add: weightedConfidence_def roundingRival_def roundingPattern_def faintPattern_def
      occurs_scenario occurs_at weigh_values)

lemma analyze_rounding:
  "analyzeMessage asciiLower (literal 7 10) [roundingRival, roundingPattern] scenarioMessage =
     \<lparr>match = Some (withCalculated roundingPattern (6485183463413515 / 9007199254740992)),
      matchConfidence = 6485183463413515 / 9007199254740992, shouldEscalate = False\<rparr>"
  "analyzeMessage asciiLower (literal 1 10) [faintPattern] scenarioMessage =
     \<lparr>match = Some (withCalculated faintPattern (7205759403792793 / 72057594037927936)),
      matchConfidence = 7205759403792793 / 72057594037927936, shouldEscalate = True\<rparr>"
proof -
  have M: "maximalWeighted asciiLower scenarioMessage [roundingRival, roundingPattern] =
      6485183463413515 / 9007199254740992"
    by (simp add: maximalWeighted_def weighted_rounding literal_values)
  show "analyzeMessage asciiLower (literal 7 10) [roundingRival, roundingPattern] scenarioMessage =
     \<lparr>match = Some (withCalculated roundingPattern (6485183463413515 / 9007199254740992)),
      matchConfidence = 6485183463413515 / 9007199254740992, shouldEscalate = False\<rparr>"
    by (simp add: analyzeMessage_spec M firstWithWeight_def weighted_rounding literal_values)
  have M': "maximalWeighted asciiLower scenarioMessage [faintPattern] =
      7205759403792793 / 72057594037927936"
    by (simp add: maximalWeighted_def weighted_rounding)
  show "analyzeMessage asciiLower (literal 1 10) [faintPattern] scenarioMessage =
     \<lparr>match = Some (withCalculated faintPattern (7205759403792793 / 72057594037927936)),
      matchConfidence = 7205759403792793 / 72057594037927936, shouldEscalate = True\<rparr>"
    by (simp add: analyzeMessage_spec M' firstWithWeight_def weighted_rounding literal_values)
qed

theorem analyzeMessage_best_match_witness:
  "scenarioPattern \<in> set (defaultKnowledgeBase @ [scenarioPattern]) \<and>
   firstWithWeight asciiLower scenarioMessage (defaultKnowledgeBase @ [scenarioPattern])
     (maximalWeighted asciiLower scenarioMessage (defaultKnowledgeBase @ [scenarioPattern]))
     = Some scenarioPattern \<and>
   \<not> shouldEscalate (analyzeMessage asciiLower (literal 7 10) (defaultKnowledgeBase @ [scenarioPattern])
        scenarioMessage) \<and>
   analyzeMessage asciiLower (literal 7 10) (defaultKnowledgeBase @ [scenarioPattern]) scenarioMessage =
     \<lparr>match = Some (withCalculated scenarioPattern (literal 8 10)), matchConfidence = literal 8 10,
      shouldEscalate = False\<rparr> \<and>
   fst (send asciiLower (\<lambda>_. Rejected)
          (emptyState\<lparr>knowledgeBase := defaultKnowledgeBase @ [scenarioPattern],
                      confidenceThreshold := literal 7 10\<rparr>) []
          ''c1'' scenarioMessage 1000 1001 1002 ''2024-05-01'') =
     SendOk scenarioResponse Chatbot (literal 8 10) 1002 \<and>
   analyzeMessage asciiLower (literal 7 10) [roundingRival, roundingPattern] scenarioMessage =
     \<lparr>match = Some (withCalculated roundingPattern (6485183463413515 / 9007199254740992)),
      matchConfidence = 6485183463413515 / 9007199254740992, shouldEscalate = False\<rparr> \<and>
   analyzeMessage asciiLower (literal 1 10) [faintPattern] scenarioMessage =
     \<lparr>match = Some (withCalculated faintPattern (7205759403792793 / 72057594037927936)),
      matchConfidence = 7205759403792793 / 72057594037927936, shouldEscalate = True\<rparr>"
  using analyzeMessage_best_match [of asciiLower "literal 7 10" "defaultKnowledgeBase @ [scenarioPattern]"
      scenarioMessage "\<lambda>_. Rejected" emptyState "''c1''" 1000 1001 1002 "''2024-05-01''"]
    firstWithWeight_scenario_default
  by (simp add: maximalWeighted_scenario_default analyze_rounding)

lemma maximalWeighted_cargo_default:
  "maximalWeighted asciiLower cargoMessage defaultKnowledgeBase = 0"
proof -
  have "weightedConfidence asciiLower cargoMessage ` set defaultKnowledgeBase
        = set (map (weightedConfidence asciiLower cargoMessage) defaultKnowledgeBase)"
    by simp
  then show ?thesis
    unfolding maximalWeighted_def weighted_default_cargo by simp
qed

lemma maximalWeighted_default_scenario:
  "maximalWeighted asciiLower scenarioMessage defaultKnowledgeBase = 4803839602528529 / 18014398509481984"
  "maximalWeighted asciiLower scenarioMessage defaultKnowledgeBase < literal 7 10"
proof -
  have "weightedConfidence asciiLower scenarioMessage ` set defaultKnowledgeBase
        = set (map (weightedConfidence asciiLower scenarioMessage) defaultKnowledgeBase)"
    by simp
  then show M: "maximalWeighted asciiLower scenarioMessage defaultKnowledgeBase = 4803839602528529 / 18014398509481984"
    unfolding maximalWeighted_def weighted_default_scenario by simp
  show "maximalWeighted asciiLower scenarioMessage defaultKnowledgeBase < literal 7 10"
    unfolding M by (simp add: literal_values)
qed

lemma analyze_rival:
  "analyzeMessage asciiLower (literal 7 10) [rivalPattern, scenarioPattern] scenarioMessage =
     \<lparr>match = Some (withCalculated rivalPattern 1), matchConfidence = 1, shouldEscalate = False\<rparr>"
proof -
  have M: "maximalWeighted asciiLower scenarioMessage [rivalPattern, scenarioPattern] = 1"
    using literal_order by (simp add: maximalWeighted_def weighted_scenario)
  show ?thesis
    using literal_order by (simp add: analyzeMessage_spec M firstWithWeight_def weighted_scenario)
qed

text \<open>
  Where the claim, read to the letter, fails. Against the default patterns the message
  of the cargo scenario gives every pattern the weighted confidence 0, so that the first
  pattern is the first to attain the maximum; no pattern is returned. And a pattern set
  that holds the scenario's pattern after one that scores higher answers with that one.
\<close>

theorem analyzeMessage_best_match_counterexample:
  "firstWithWeight asciiLower cargoMessage defaultKnowledgeBase
     (Max (weightedConfidence asciiLower cargoMessage ` set defaultKnowledgeBase))
     = Some (hd defaultKnowledgeBase) \<and>
   match (analyzeMessage asciiLower (literal 7 10) defaultKnowledgeBase cargoMessage) = None \<and>
   scenarioPattern \<in> set [rivalPattern, scenarioPattern] \<and>
   matchConfidence (analyzeMessage asciiLower (literal 7 10) [rivalPattern, scenarioPattern]
     scenarioMessage) = 1 \<and>
   fst (send asciiLower (\<lambda>_. Rejected)
          (emptyState\<lparr>knowledgeBase := [rivalPattern, scenarioPattern]\<rparr>) []
          ''c1'' scenarioMessage 1000 1001 1002 ''2024-05-01'') =
     SendOk rivalResponse Chatbot 1 1002"
proof (intro conjI)
  have img: "weightedConfidence asciiLower cargoMessage ` set defaultKnowledgeBase
        = set (map (weightedConfidence asciiLower cargoMessage) defaultKnowledgeBase)"
    by simp
  have M: "Max (weightedConfidence asciiLower cargoMessage ` set defaultKnowledgeBase) = 0"
    unfolding img weighted_default_cargo by simp
  have "weightedConfidence asciiLower cargoMessage (hd defaultKnowledgeBase) = 0"
    using weighted_default_cargo by (simp add: defaultKnowledgeBase_def)
  then show "firstWithWeight asciiLower cargoMessage defaultKnowledgeBase
     (Max (weightedConfidence asciiLower cargoMessage ` set defaultKnowledgeBase))
     = Some (hd defaultKnowledgeBase)"
    unfolding M by (simp add: firstWithWeight_def defaultKnowledgeBase_def)
  show "match (analyzeMessage asciiLower (literal 7 10) defaultKnowledgeBase cargoMessage) = None"
    by (simp add: analyzeMessage_spec maximalWeighted_cargo_default)
  show "scenarioPattern \<in> set [rivalPattern, scenarioPattern]" by simp
  show "matchConfidence (analyzeMessage asciiLower (literal 7 10) [rivalPattern, scenarioPattern]
     scenarioMessage) = 1"
    by (simp add: analyze_rival)
  let ?s = "emptyState\<lparr>knowledgeBase := [rivalPattern, scenarioPattern]\<rparr>"
  have thr: "confidenceThreshold ?s = literal 7 10" "knowledgeBase ?s = [rivalPattern, scenarioPattern]"
    by (simp_all add: emptyState_def)
  have "analyzeMessage asciiLower (confidenceThreshold ?s) (knowledgeBase ?s) scenarioMessage =
     \<lparr>match = Some (withCalculated rivalPattern 1), matchConfidence = 1, shouldEscalate = False\<rparr>"
    unfolding thr by (rule analyze_rival)
  from send_reply_matched [OF this]
  show "fst (send asciiLower (\<lambda>_. Rejected) ?s [] ''c1'' scenarioMessage 1000 1001 1002
      ''2024-05-01'') = SendOk rivalResponse Chatbot 1 1002"
    by (simp add: withCalculated_def rivalPattern_def)
qed

section \<open>No keyword, no match\<close>

text \<open>
  The threshold that the constructor takes from a setting that is not negative is
  positive; a negative setting is kept as it is.
\<close>

lemma confidenceThresholdOf_positive:
  "parsed = None \<or> (\<exists>x. parsed = Some x \<and> 0 \<le> x) \<Longrightarrow> 0 < confidenceThresholdOf parsed"
  by (auto simp: confidenceThresholdOf_def literal_values)

lemma confidenceThresholdOf_negative:
  "x < 0 \<Longrightarrow> confidenceThresholdOf (Some x) = x"
  by (simp add: confidenceThresholdOf_def)

text \<open>
  Claim C7, as the code has it. When the pattern set is empty, or no keyword of any
  pattern occurs in the message as a case-insensitive substring, \<open>analyzeMessage\<close> returns
  no match and the confidence 0, and \<open>shouldEscalate\<close> is true exactly when the threshold is
  positive, as the default 0.7 is. Whatever the threshold, the handler finds no match,
  hands the message to the Escalation Processor and answers with its text in the role
  \<open>ai\<close>.
\<close>

theorem analyzeMessage_no_match:
  assumes "knowledgeBase s = [] \<or>
           (\<forall>p \<in> set (knowledgeBase s). \<forall>k \<in> set (keywordList p). \<not> occursIn lc m k)"
  shows "analyzeMessage lc (confidenceThreshold s) (knowledgeBase s) m =
           \<lparr>match = None, matchConfidence = 0, shouldEscalate = (0 < confidenceThreshold s)\<rparr> \<and>
         fst (send lc create s [] cid m nowUser nowBot nowReply today) =
           SendOk (aiResponse (processMessage create m)) Ai (85 / 100) nowReply"
proof -
  from assms have "\<forall>p \<in> set (knowledgeBase s). \<forall>k \<in> set (keywordList p). \<not> occursIn lc m k"
    by auto
  then have M: "maximalWeighted lc m (knowledgeBase s) = 0"
    by (rule maximalWeighted_no_occurrence)
  have r: "analyzeMessage lc (confidenceThreshold s) (knowledgeBase s) m =
           \<lparr>match = None, matchConfidence = 0, shouldEscalate = (0 < confidenceThreshold s)\<rparr>"
    by (simp add: analyzeMessage_spec M)
  then have "match (analyzeMessage lc (confidenceThreshold s) (knowledgeBase s) m) = None"
    by simp
  then have "shouldEscalate (analyzeMessage lc (confidenceThreshold s) (knowledgeBase s) m)
           \<or> match (analyzeMessage lc (confidenceThreshold s) (knowledgeBase s) m) = None"
    by (rule disjI2)
  from send_begin_escalated [OF this, of create cid nowUser nowBot]
  have "fst (send lc create s [] cid m nowUser nowBot nowReply today) =
           SendOk (aiResponse (processMessage create m)) Ai (85 / 100) nowReply"
    by (simp add: send_accepted r replyConfidence_def)
  with r show ?thesis by simp
qed

theorem analyzeMessage_no_match_witness:
  "list_all (\<lambda>p. list_all (\<lambda>k. \<not> occursIn asciiLower cargoMessage k) (keywordList p))
     (knowledgeBase emptyState) \<and>
   analyzeMessage asciiLower (confidenceThreshold emptyState) (knowledgeBase emptyState) cargoMessage =
     \<lparr>match = None, matchConfidence = 0, shouldEscalate = True\<rparr> \<and>
   fst (send asciiLower (\<lambda>_. Rejected) emptyState [] ''c1'' cargoMessage 1000 1001 1002
          ''2024-05-01'') = SendOk fallbackResponse Ai (85 / 100) 1002"
proof -
  have h1: "\<forall>p \<in> set (knowledgeBase emptyState). \<forall>k \<in> set (keywordList p).
       \<not> occursIn asciiLower cargoMessage k"
    by (simp add: emptyState_def defaultKnowledgeBase_def occurs_cargo)
  have h2: "(0 < confidenceThreshold emptyState) = True"
    using literal_order(1) by (simp add: emptyState_def)
  have h3: "aiResponse (processMessage (\<lambda>_. Rejected) cargoMessage) = fallbackResponse"
    by (simp add: processMessage_def)
  show ?thesis
    using h1 analyzeMessage_no_match [OF disjI2 [OF h1], of "\<lambda>_. Rejected" "''c1''" 1000 1001 1002
        "''2024-05-01''"]
    unfolding h2 h3 by (simp add: list_all_iff)
qed

text \<open>
  Where the claim fails. The constructor keeps the setting \<^verbatim>\<open>-0.5\<close> as the threshold; then
  the confidence 0 is not below the threshold, and \<open>shouldEscalate\<close> is false, for the
  message of the cargo scenario against the default patterns as for the empty pattern set.
\<close>

theorem analyzeMessage_no_match_counterexample:
  "confidenceThresholdOf (Some (- 1 / 2)) = - 1 / 2 \<and>
   list_all (\<lambda>p. list_all (\<lambda>k. \<not> occursIn asciiLower cargoMessage k) (keywordList p))
     defaultKnowledgeBase \<and>
   analyzeMessage asciiLower (confidenceThresholdOf (Some (- 1 / 2))) defaultKnowledgeBase cargoMessage =
     \<lparr>match = None, matchConfidence = 0, shouldEscalate = False\<rparr> \<and>
   analyzeMessage asciiLower (confidenceThresholdOf (Some (- 1 / 2))) [] cargoMessage =
     \<lparr>match = None, matchConfidence = 0, shouldEscalate = False\<rparr>"
proof (intro conjI)
  show t: "confidenceThresholdOf (Some (- 1 / 2)) = - 1 / 2"
    by (simp add: confidenceThresholdOf_def)
  show "list_all (\<lambda>p. list_all (\<lambda>k. \<not> occursIn asciiLower cargoMessage k) (keywordList p))
     defaultKnowledgeBase"
    by (simp add: defaultKnowledgeBase_def occurs_cargo)
  show "analyzeMessage asciiLower (confidenceThresholdOf (Some (- 1 / 2))) defaultKnowledgeBase
      cargoMessage = \<lparr>match = None, matchConfidence = 0, shouldEscalate = False\<rparr>"
    unfolding t by (simp add: analyzeMessage_spec maximalWeighted_cargo_default)
  show "analyzeMessage asciiLower (confidenceThresholdOf (Some (- 1 / 2))) [] cargoMessage =
     \<lparr>match = None, matchConfidence = 0, shouldEscalate = False\<rparr>"
    unfolding t by (simp add: analyzeMessage_spec maximalWeighted_def)
qed

section \<open>Polling returns what is new\<close>

lemma fold_max_Max: "fold max ts (t::int) = Max (set (t # ts))"
  by (simp only: Max.set_eq_fold)

lemma last_timestamp:
  "(case map timestamp ms of [] \<Rightarrow> a | t # ts \<Rightarrow> fold max ts t) =
     (if ms = [] then a else Max (timestamp ` set ms))"
proof (cases ms)
  case Nil
  then show ?thesis by simp
next
  case (Cons m ms')
  have "fold max (map timestamp ms') (timestamp m) = Max (set (timestamp m # map timestamp ms'))"
    by (rule fold_max_Max)
  then show ?thesis using Cons by simp
qed

lemma count_list_filter:
  "count_list (filter P xs) x = (if P x then count_list xs x else 0)"
  by (induction xs) auto

text \<open>What the handler answers, by the number of timestamps it spreads into one call.\<close>

lemma poll_answer:
  "poll s cid parsed =
     ((if length (filter (\<lambda>m. clientId m = cid \<and> (case parsed of None \<Rightarrow> 0 | Some n \<Rightarrow> n) < timestamp m)
                    (chatLog s)) \<le> argumentLimit s
       then PollOk (filter (\<lambda>m. clientId m = cid \<and> (case parsed of None \<Rightarrow> 0 | Some n \<Rightarrow> n) < timestamp m)
                      (chatLog s))
              (if filter (\<lambda>m. clientId m = cid \<and> (case parsed of None \<Rightarrow> 0 | Some n \<Rightarrow> n) < timestamp m)
                    (chatLog s) = []
               then (case parsed of None \<Rightarrow> 0 | Some n \<Rightarrow> n)
               else Max (timestamp ` set (filter (\<lambda>m. clientId m = cid \<and>
                      (case parsed of None \<Rightarrow> 0 | Some n \<Rightarrow> n) < timestamp m) (chatLog s))))
       else ServerError ''Could not fetch new messages''), s)"
proof -
  let ?a = "case parsed of None \<Rightarrow> 0 | Some n \<Rightarrow> n"
  let ?ms = "filter (\<lambda>m. clientId m = cid \<and> ?a < timestamp m) (chatLog s)"
  show ?thesis
  proof (cases ?ms)
    case Nil
    then show ?thesis by (simp add: poll_def Let_def)
  next
    case (Cons x xs)
    have "fold max (map timestamp xs) (timestamp x) = Max (set (timestamp x # map timestamp xs))"
      by (rule fold_max_Max)
    then show ?thesis using Cons by (simp add: poll_def Let_def)
  qed
qed

lemma poll_state: "snd (poll s cid parsed) = s"
  by (simp add: poll_answer)

text \<open>
  Claim C2, against the code. The poll selects exactly the messages of the log that belong
  to the client and are strictly newer than the watermark, in the order of the log and as
  often as they occur there. While they are no more than the engine accepts as the
  arguments of one call, it answers with them and with the largest of their timestamps, or
  the watermark itself when there is none. When they are more, \<^verbatim>\<open>Math.max(...)\<close> throws and
  the poll answers with the status 500 and no message. The poll leaves the state as it is,
  so polling again gives the same answer. A watermark that is missing or not a number
  counts as 0.
\<close>

theorem poll_new_messages:
  "poll s cid (Some after) =
     ((if length (filter (\<lambda>m. clientId m = cid \<and> after < timestamp m) (chatLog s)) \<le> argumentLimit s
       then PollOk (filter (\<lambda>m. clientId m = cid \<and> after < timestamp m) (chatLog s))
              (if filter (\<lambda>m. clientId m = cid \<and> after < timestamp m) (chatLog s) = [] then after
               else Max (timestamp ` set (filter (\<lambda>m. clientId m = cid \<and> after < timestamp m)
                      (chatLog s))))
       else ServerError ''Could not fetch new messages''), s) \<and>
   count_list (filter (\<lambda>m. clientId m = cid \<and> after < timestamp m) (chatLog s)) m =
     (if clientId m = cid \<and> after < timestamp m then count_list (chatLog s) m else 0) \<and>
   poll (snd (poll s cid (Some after))) cid (Some after) = poll s cid (Some after) \<and>
   poll s cid None = poll s cid (Some 0)"
proof (intro conjI)
  let ?ms = "filter (\<lambda>m. clientId m = cid \<and> after < timestamp m) (chatLog s)"
  show "poll s cid (Some after) =
     ((if length ?ms \<le> argumentLimit s
       then PollOk ?ms (if ?ms = [] then after else Max (timestamp ` set ?ms))
       else ServerError ''Could not fetch new messages''), s)"
    unfolding poll_answer [of s cid "Some after"] option.case ..
  show "count_list ?ms m =
     (if clientId m = cid \<and> after < timestamp m then count_list (chatLog s) m else 0)"
    by (rule count_list_filter)
  show "poll (snd (poll s cid (Some after))) cid (Some after) = poll s cid (Some after)"
    by (simp only: poll_state)
  show "poll s cid None = poll s cid (Some 0)"
    by (simp add: poll_def Let_def)
qed

text \<open>
  The poll of a client with 200000 messages in the log, on an engine that accepts 125000
  arguments, and two polls of a short log.
\<close>

theorem poll_new_messages_witness:
  "length (filter (\<lambda>m. clientId m = ''c1'' \<and> 0 < timestamp m) longLog) = 200000 \<and>
   argumentLimit emptyState = 125000 \<and>
   poll (emptyState\<lparr>chatLog := longLog\<rparr>) ''c1'' (Some 0) =
     (ServerError ''Could not fetch new messages'', emptyState\<lparr>chatLog := longLog\<rparr>) \<and>
   poll (emptyState\<lparr>chatLog := exampleLog\<rparr>) ''c1'' (Some 10) =
     (PollOk [\<lparr>timestamp = 12, clientId = ''c1'', role = Ai, content = fallbackResponse,
               msgConfidence = Some (85 / 100), adminId = None\<rparr>] 12,
      emptyState\<lparr>chatLog := exampleLog\<rparr>) \<and>
   poll (emptyState\<lparr>chatLog := exampleLog\<rparr>) ''c1'' (Some 12) =
     (PollOk [] 12, emptyState\<lparr>chatLog := exampleLog\<rparr>)"
proof (intro conjI)
  show long: "length (filter (\<lambda>m. clientId m = ''c1'' \<and> 0 < timestamp m) longLog) = 200000"
    by (simp add: longLog_def userMessageOf_def)
  show limit: "argumentLimit emptyState = 125000"
    by (simp add: emptyState_def)
  have "\<not> length (filter (\<lambda>m. clientId m = ''c1'' \<and> 0 < timestamp m)
          (chatLog (emptyState\<lparr>chatLog := longLog\<rparr>))) \<le> argumentLimit (emptyState\<lparr>chatLog := longLog\<rparr>)"
    by (simp add: long limit)
  with poll_new_messages [of "emptyState\<lparr>chatLog := longLog\<rparr>" "''c1''" 0]
  show "poll (emptyState\<lparr>chatLog := longLog\<rparr>) ''c1'' (Some 0) =
     (ServerError ''Could not fetch new messages'', emptyState\<lparr>chatLog := longLog\<rparr>)"
    by (simp only: if_False)
  show "poll (emptyState\<lparr>chatLog := exampleLog\<rparr>) ''c1'' (Some 10) =
     (PollOk [\<lparr>timestamp = 12, clientId = ''c1'', role = Ai, content = fallbackResponse,
               msgConfidence = Some (85 / 100), adminId = None\<rparr>] 12,
      emptyState\<lparr>chatLog := exampleLog\<rparr>)"
    using poll_new_messages [of "emptyState\<lparr>chatLog := exampleLog\<rparr>" "''c1''" 10]
    by (simp add: exampleLog_def limit)
  show "poll (emptyState\<lparr>chatLog := exampleLog\<rparr>) ''c1'' (Some 12) =
     (PollOk [] 12, emptyState\<lparr>chatLog := exampleLog\<rparr>)"
    using poll_new_messages [of "emptyState\<lparr>chatLog := exampleLog\<rparr>" "''c1''" 12]
    by (simp add: exampleLog_def limit)
qed

section \<open>The Escalation Processor always answers\<close>

lemma fallbackResponse_nonempty: "fallbackResponse \<noteq> []"
  by (simp add: fallbackResponse_def)

lemma send_replies:
  "\<exists>reply r c. fst (send lc create s [] cid text nowUser nowBot nowReply today) = SendOk reply r c nowReply"
  by (simp add: send_accepted)

text \<open>
  Claim C5. When the call to the completion service rejects, or resolves to a completion
  without a first choice or without a token count, \<open>processMessage\<close> returns the fixed
  apology with confidence 0.3 and no tokens; otherwise it returns the completion's text
  with confidence 0.85. The apology is not empty. A send request that passes validation
  is answered with a reply text, and with the apology when the message was escalated and
  the call rejected.
\<close>

theorem processMessage_fallback:
  "(create text = Rejected \<or>
    (\<exists>c. create text = Resolved c \<and> (choices c = [] \<or> totalTokens c = None)) \<longrightarrow>
      processMessage create text =
        \<lparr>aiResponse = fallbackResponse, aiConfidence = 3 / 10, tokensUsed = 0\<rparr>) \<and>
   (\<forall>c reply rest n. create text = Resolved c \<and> choices c = reply # rest \<and> totalTokens c = Some n \<longrightarrow>
      processMessage create text =
        \<lparr>aiResponse = reply, aiConfidence = 85 / 100, tokensUsed = n\<rparr>) \<and>
   fallbackResponse \<noteq> [] \<and>
   (\<exists>reply r c. fst (send lc create s [] cid text nowUser nowBot nowReply today) =
      SendOk reply r c nowReply) \<and>
   (create text = Rejected \<and>
    (shouldEscalate (analyzeMessage lc (confidenceThreshold s) (knowledgeBase s) text) \<or>
     match (analyzeMessage lc (confidenceThreshold s) (knowledgeBase s) text) = None) \<longrightarrow>
      (\<exists>c. fst (send lc create s [] cid text nowUser nowBot nowReply today) =
         SendOk fallbackResponse Ai c nowReply))"
proof (intro conjI impI allI)
  assume "create text = Rejected \<or>
    (\<exists>c. create text = Resolved c \<and> (choices c = [] \<or> totalTokens c = None))"
  then show "processMessage create text =
        \<lparr>aiResponse = fallbackResponse, aiConfidence = 3 / 10, tokensUsed = 0\<rparr>"
    by (auto simp: processMessage_def split: list.splits option.splits)
next
  fix c reply rest n
  assume "create text = Resolved c \<and> choices c = reply # rest \<and> totalTokens c = Some n"
  then show "processMessage create text =
        \<lparr>aiResponse = reply, aiConfidence = 85 / 100, tokensUsed = n\<rparr>"
    by (simp add: processMessage_def)
next
  show "fallbackResponse \<noteq> []" by (rule fallbackResponse_nonempty)
  show "\<exists>reply r c. fst (send lc create s [] cid text nowUser nowBot nowReply today) =
      SendOk reply r c nowReply"
    by (rule send_replies)
next
  assume a: "create text = Rejected \<and>
    (shouldEscalate (analyzeMessage lc (confidenceThreshold s) (knowledgeBase s) text) \<or>
     match (analyzeMessage lc (confidenceThreshold s) (knowledgeBase s) text) = None)"
  then have "processMessage create text =
        \<lparr>aiResponse = fallbackResponse, aiConfidence = 3 / 10, tokensUsed = 0\<rparr>"
    by (simp add: processMessage_def)
  then show "\<exists>c. fst (send lc create s [] cid text nowUser nowBot nowReply today) =
         SendOk fallbackResponse Ai c nowReply"
    using a send_begin_escalated [of lc s "text" create cid nowUser nowBot]
    by (simp add: send_accepted)
qed

theorem processMessage_fallback_witness:
  "processMessage (\<lambda>_. Rejected) cargoMessage =
     \<lparr>aiResponse = fallbackResponse, aiConfidence = 3 / 10, tokensUsed = 0\<rparr> \<and>
   processMessage (\<lambda>_. Resolved \<lparr>choices = [], totalTokens = Some 12\<rparr>) cargoMessage =
     \<lparr>aiResponse = fallbackResponse, aiConfidence = 3 / 10, tokensUsed = 0\<rparr> \<and>
   processMessage (\<lambda>_. Resolved \<lparr>choices = [scenarioResponse], totalTokens = Some 12\<rparr>) cargoMessage =
     \<lparr>aiResponse = scenarioResponse, aiConfidence = 85 / 100, tokensUsed = 12\<rparr> \<and>
   fst (send asciiLower (\<lambda>_. Rejected) emptyState [] ''c1'' cargoMessage 1000 1001 1002
          ''2024-05-01'') = SendOk fallbackResponse Ai (85 / 100) 1002"
proof -
  have esc: "match (analyzeMessage asciiLower (confidenceThreshold emptyState)
      (knowledgeBase emptyState) cargoMessage) = None"
    by (simp add: emptyState_def analyzeMessage_spec maximalWeighted_cargo_default)
  have conf: "matchConfidence (analyzeMessage asciiLower (confidenceThreshold emptyState)
      (knowledgeBase emptyState) cargoMessage) = 0"
    by (simp add: emptyState_def analyzeMessage_spec maximalWeighted_cargo_default)
  have reply: "\<And>c. fst (send asciiLower (\<lambda>_. Rejected) emptyState [] ''c1'' cargoMessage 1000 1001 1002
          ''2024-05-01'') = SendOk fallbackResponse Ai c 1002 \<Longrightarrow> c = 85 / 100"
    using send_begin_escalated [of asciiLower emptyState cargoMessage "\<lambda>_. Rejected" "''c1''" 1000 1001] esc conf
    by (simp add: send_accepted replyConfidence_def)
  show ?thesis
    using processMessage_fallback [of "\<lambda>_. Rejected" cargoMessage asciiLower emptyState "''c1''"
        1000 1001 1002 "''2024-05-01''"]
      processMessage_fallback [of "\<lambda>_. Resolved \<lparr>choices = [], totalTokens = Some 12\<rparr>" cargoMessage
        asciiLower emptyState "''c1''" 1000 1001 1002 "''2024-05-01''"]
      processMessage_fallback [of "\<lambda>_. Resolved \<lparr>choices = [scenarioResponse], totalTokens = Some 12\<rparr>"
        cargoMessage asciiLower emptyState "''c1''" 1000 1001 1002 "''2024-05-01''"]
      esc reply
    by auto
qed

section \<open>Feedback keeps the confidence in range\<close>






lemma findIndex_None: "findIndex P xs = None \<Longrightarrow> \<forall>x \<in> set xs. \<not> P x"
  by (induction xs) (auto split: if_splits)







section \<open>The confidence of an escalated reply\<close>

text \<open>
  Claim C9. When a send request is escalated to the AI, the confidence returned to the
  client and the confidence stored with the appended reply are both the matcher's
  confidence when that is not zero and 0.85 when it is; the confidence the Escalation
  Processor reports (0.85 or 0.3) appears in neither.
\<close>

theorem send_escalated_confidence:
  assumes "shouldEscalate (analyzeMessage lc (confidenceThreshold s) (knowledgeBase s) txt) \<or>
           match (analyzeMessage lc (confidenceThreshold s) (knowledgeBase s) txt) = None"
  shows "send lc create s [] cid txt nowUser nowBot nowReply today =
           (SendOk (aiResponse (processMessage create txt)) Ai
              (if matchConfidence (analyzeMessage lc (confidenceThreshold s) (knowledgeBase s) txt) \<noteq> 0
               then matchConfidence (analyzeMessage lc (confidenceThreshold s) (knowledgeBase s) txt)
               else 85 / 100)
              nowReply,
            s\<lparr>chatLog := chatLog s @
                 [userMessageOf cid txt nowUser,
                  \<lparr>timestamp = nowBot, clientId = cid, role = Ai,
                   content = aiResponse (processMessage create txt),
                   msgConfidence = Some
                     (if matchConfidence
                           (analyzeMessage lc (confidenceThreshold s) (knowledgeBase s) txt) \<noteq> 0
                      then matchConfidence
                           (analyzeMessage lc (confidenceThreshold s) (knowledgeBase s) txt)
                      else 85 / 100),
                   adminId = None\<rparr>],
              analyticsFile := recordDay (analyticsFile s) today Ai\<rparr>)"
  using send_begin_escalated [OF assms, of create cid nowUser nowBot]
  by (simp add: send_accepted send_commit_def replyConfidence_def userMessageOf_def)

theorem send_escalated_confidence_witness:
  "fst (send asciiLower (\<lambda>_. Rejected) emptyState [] ''c1'' scenarioMessage 1000 1001 1002
     ''2024-05-01'') = SendOk fallbackResponse Ai (4803839602528529 / 18014398509481984) 1002 \<and>
   map msgConfidence (chatLog (snd (send asciiLower (\<lambda>_. Rejected) emptyState [] ''c1''
     scenarioMessage 1000 1001 1002 ''2024-05-01''))) = [None, Some (4803839602528529 / 18014398509481984)] \<and>
   fst (send asciiLower (\<lambda>_. Rejected) emptyState [] ''c1'' cargoMessage 1000 1001 1002
     ''2024-05-01'') = SendOk fallbackResponse Ai (85 / 100) 1002 \<and>
   map msgConfidence (chatLog (snd (send asciiLower (\<lambda>_. Rejected) emptyState [] ''c1''
     cargoMessage 1000 1001 1002 ''2024-05-01''))) = [None, Some (85 / 100)]"
proof -
  note M = maximalWeighted_default_scenario
  have a1: "analyzeMessage asciiLower (confidenceThreshold emptyState) (knowledgeBase emptyState)
      scenarioMessage = \<lparr>match = match (analyzeMessage asciiLower (literal 7 10) defaultKnowledgeBase scenarioMessage),
        matchConfidence = 4803839602528529 / 18014398509481984, shouldEscalate = True\<rparr>"
    using M(2) by (simp add: emptyState_def analyzeMessage_spec M(1))
  have a2: "analyzeMessage asciiLower (confidenceThreshold emptyState) (knowledgeBase emptyState)
      cargoMessage = \<lparr>match = None, matchConfidence = 0, shouldEscalate = True\<rparr>"
    using literal_order(1)
    by (simp add: emptyState_def analyzeMessage_spec maximalWeighted_cargo_default)
  have p: "\<And>m. processMessage (\<lambda>_. Rejected) m =
      \<lparr>aiResponse = fallbackResponse, aiConfidence = 3 / 10, tokensUsed = 0\<rparr>"
    by (simp add: processMessage_def)
  have e1: "shouldEscalate (analyzeMessage asciiLower (confidenceThreshold emptyState)
        (knowledgeBase emptyState) scenarioMessage) \<or>
      match (analyzeMessage asciiLower (confidenceThreshold emptyState)
        (knowledgeBase emptyState) scenarioMessage) = None"
    by (simp add: a1)
  have e2: "shouldEscalate (analyzeMessage asciiLower (confidenceThreshold emptyState)
        (knowledgeBase emptyState) cargoMessage) \<or>
      match (analyzeMessage asciiLower (confidenceThreshold emptyState)
        (knowledgeBase emptyState) cargoMessage) = None"
    by (simp add: a2)
  have log0: "chatLog emptyState = []" by (simp add: emptyState_def)
  note w1 = send_escalated_confidence [OF e1, of "\<lambda>_. Rejected" "''c1''" 1000 1001 1002 "''2024-05-01''",
      unfolded a1 p log0]
  note w2 = send_escalated_confidence [OF e2, of "\<lambda>_. Rejected" "''c1''" 1000 1001 1002 "''2024-05-01''",
      unfolded a2 p log0]
  show ?thesis
    unfolding w1 w2 by (simp add: userMessageOf_def)
qed

section \<open>Verifying a one-time code\<close>

lemma verifyAuthCode_cases:
  "verifyAuthCode s tid submitted now =
     (case authCodes s tid of
        None \<Rightarrow> (False, s)
      | Some a \<Rightarrow>
          if codeExpires a < now then (False, s\<lparr>authCodes := (authCodes s)(tid := None)\<rparr>)
          else if code a = submitted then (True, s\<lparr>authCodes := (authCodes s)(tid := None)\<rparr>)
          else (False, s))"
  by (simp add: verifyAuthCode_def)

lemma verifyCode_admin:
  "adminTelegramId s = Some tid \<Longrightarrow>
   verifyCode s [] tid submitted newToken nowVerify nowCreated nowExpires =
     (if fst (verifyAuthCode s tid submitted nowVerify)
      then (VerifyOk newToken,
            (snd (verifyAuthCode s tid submitted nowVerify))
              \<lparr>adminSessions :=
                 setProperty (adminSessions (snd (verifyAuthCode s tid submitted nowVerify))) newToken
                   \<lparr>telegramId = tid, created = nowCreated,
                    expires = nowExpires + 24 * 60 * 60 * 1000\<rparr>\<rparr>)
      else (BadRequest ''Invalid or expired code'', snd (verifyAuthCode s tid submitted nowVerify)))"
  by (simp add: verifyCode_def split_beta)

text \<open>
  Claim C3, as the code has it. For a request of the configured admin that passes
  validation: with no code pending, with a pending code whose expiry has passed, and
  with a pending code that differs from the submitted one, the handler answers with the
  same error, 400 \<^verbatim>\<open>Invalid or expired code\<close>; an expired code is deleted, a code that
  did not match stays pending. A code that matches in time is deleted and the handler
  answers with the token of a new session that expires 24 hours later, so that a second
  verification with the same code fails. A code submitted six minutes after it was
  requested fails and is deleted.
\<close>

theorem verifyCode_outcomes:
  assumes "adminTelegramId s = Some tid"
  shows
  "(authCodes s tid = None \<longrightarrow>
      verifyCode s [] tid submitted newToken nowVerify nowCreated nowExpires =
        (BadRequest ''Invalid or expired code'', s)) \<and>
   (\<forall>a. authCodes s tid = Some a \<and> codeExpires a < nowVerify \<longrightarrow>
      verifyCode s [] tid submitted newToken nowVerify nowCreated nowExpires =
        (BadRequest ''Invalid or expired code'', s\<lparr>authCodes := (authCodes s)(tid := None)\<rparr>)) \<and>
   (\<forall>a. authCodes s tid = Some a \<and> nowVerify \<le> codeExpires a \<and> code a \<noteq> submitted \<longrightarrow>
      verifyCode s [] tid submitted newToken nowVerify nowCreated nowExpires =
        (BadRequest ''Invalid or expired code'', s)) \<and>
   (\<forall>a. authCodes s tid = Some a \<and> nowVerify \<le> codeExpires a \<and> code a = submitted \<longrightarrow>
      verifyCode s [] tid submitted newToken nowVerify nowCreated nowExpires =
        (VerifyOk newToken,
         s\<lparr>authCodes := (authCodes s)(tid := None),
           adminSessions := setProperty (adminSessions s) newToken
             \<lparr>telegramId = tid, created = nowCreated,
              expires = nowExpires + 24 * 60 * 60 * 1000\<rparr>\<rparr>) \<and>
      verifyCode (snd (verifyCode s [] tid submitted newToken nowVerify nowCreated nowExpires))
          [] tid submitted newToken' nowVerify' nowCreated' nowExpires' =
        (BadRequest ''Invalid or expired code'',
         snd (verifyCode s [] tid submitted newToken nowVerify nowCreated nowExpires))) \<and>
   verifyCode (snd (sendAuthCode s tid submitted now delivered)) [] tid submitted newToken
       (now + 6 * 60 * 1000) nowCreated nowExpires =
     (BadRequest ''Invalid or expired code'',
      (snd (sendAuthCode s tid submitted now delivered))
        \<lparr>authCodes := (authCodes (snd (sendAuthCode s tid submitted now delivered)))(tid := None)\<rparr>)"
proof (intro conjI allI impI)
  assume "authCodes s tid = None"
  then show "verifyCode s [] tid submitted newToken nowVerify nowCreated nowExpires =
        (BadRequest ''Invalid or expired code'', s)"
    using assms by (simp add: verifyCode_admin verifyAuthCode_cases)
next
  fix a assume "authCodes s tid = Some a \<and> codeExpires a < nowVerify"
  then show "verifyCode s [] tid submitted newToken nowVerify nowCreated nowExpires =
        (BadRequest ''Invalid or expired code'', s\<lparr>authCodes := (authCodes s)(tid := None)\<rparr>)"
    using assms by (simp add: verifyCode_admin verifyAuthCode_cases)
next
  fix a assume "authCodes s tid = Some a \<and> nowVerify \<le> codeExpires a \<and> code a \<noteq> submitted"
  then show "verifyCode s [] tid submitted newToken nowVerify nowCreated nowExpires =
        (BadRequest ''Invalid or expired code'', s)"
    using assms by (simp add: verifyCode_admin verifyAuthCode_cases)
next
  fix a assume a: "authCodes s tid = Some a \<and> nowVerify \<le> codeExpires a \<and> code a = submitted"
  then show ok: "verifyCode s [] tid submitted newToken nowVerify nowCreated nowExpires =
        (VerifyOk newToken,
         s\<lparr>authCodes := (authCodes s)(tid := None),
           adminSessions := setProperty (adminSessions s) newToken
             \<lparr>telegramId = tid, created = nowCreated,
              expires = nowExpires + 24 * 60 * 60 * 1000\<rparr>\<rparr>)"
    using assms by (simp add: verifyCode_admin verifyAuthCode_cases)
  show "verifyCode (snd (verifyCode s [] tid submitted newToken nowVerify nowCreated nowExpires))
          [] tid submitted newToken' nowVerify' nowCreated' nowExpires' =
        (BadRequest ''Invalid or expired code'',
         snd (verifyCode s [] tid submitted newToken nowVerify nowCreated nowExpires))"
    unfolding ok using assms by (simp add: verifyCode_admin verifyAuthCode_cases)
next
  show "verifyCode (snd (sendAuthCode s tid submitted now delivered)) [] tid submitted newToken
       (now + 6 * 60 * 1000) nowCreated nowExpires =
     (BadRequest ''Invalid or expired code'',
      (snd (sendAuthCode s tid submitted now delivered))
        \<lparr>authCodes := (authCodes (snd (sendAuthCode s tid submitted now delivered)))(tid := None)\<rparr>)"
    using assms by (simp add: verifyCode_admin verifyAuthCode_cases sendAuthCode_def)
qed

theorem verifyCode_outcomes_witness:
  "adminTelegramId pendingState = Some ''123456789'' \<and>
   authCodes pendingState ''123456789'' = Some \<lparr>code = ''123456'', codeExpires = 300000\<rparr> \<and>
   fst (verifyCode pendingState [] ''123456789'' ''123456'' ''token-1'' 200000 200001 200002)
     = VerifyOk ''token-1'' \<and>
   authCodes (snd (verifyCode pendingState [] ''123456789'' ''123456'' ''token-1''
     200000 200001 200002)) ''123456789'' = None \<and>
   fst (verifyCode (snd (verifyCode pendingState [] ''123456789'' ''123456'' ''token-1''
     200000 200001 200002)) [] ''123456789'' ''123456'' ''token-2'' 200003 200004 200005)
     = BadRequest ''Invalid or expired code'' \<and>
   fst (verifyCode pendingState [] ''123456789'' ''123456'' ''token-1'' 360000 360001 360002)
     = BadRequest ''Invalid or expired code'' \<and>
   fst (verifyCode pendingState [] ''123456789'' ''654321'' ''token-1'' 200000 200001 200002)
     = BadRequest ''Invalid or expired code'' \<and>
   fst (verifyCode emptyState [] ''123456789'' ''123456'' ''token-1'' 200000 200001 200002)
     = BadRequest ''Invalid or expired code''"
proof -
  have adm: "adminTelegramId pendingState = Some ''123456789''"
    "adminTelegramId emptyState = Some ''123456789''"
    by (simp_all add: pendingState_def sendAuthCode_def emptyState_def)
  have pend: "authCodes pendingState ''123456789'' = Some \<lparr>code = ''123456'', codeExpires = 300000\<rparr>"
    by (simp add: pendingState_def sendAuthCode_def)
  have none: "authCodes emptyState ''123456789'' = None"
    by (simp add: emptyState_def)
  let ?a = "\<lparr>code = ''123456'', codeExpires = 300000\<rparr>"
  note ok = verifyCode_outcomes [OF adm(1), of "''123456''" "''token-1''" 200000 200001 200002
      "''token-2''" 200003 200004 200005 0 True]
  note expired = verifyCode_outcomes [OF adm(1), of "''123456''" "''token-1''" 360000 360001 360002
      "''token-2''" 200003 200004 200005 0 True]
  note mismatch = verifyCode_outcomes [OF adm(1), of "''654321''" "''token-1''" 200000 200001 200002
      "''token-2''" 200003 200004 200005 0 True]
  note missing = verifyCode_outcomes [OF adm(2), of "''123456''" "''token-1''" 200000 200001 200002
      "''token-2''" 200003 200004 200005 0 True]
  have h_ok: "authCodes pendingState ''123456789'' = Some ?a \<and> 200000 \<le> codeExpires ?a \<and>
      code ?a = ''123456''"
    by (simp add: pend)
  have h_expired: "authCodes pendingState ''123456789'' = Some ?a \<and> codeExpires ?a < 360000"
    by (simp add: pend)
  have h_mismatch: "authCodes pendingState ''123456789'' = Some ?a \<and> 200000 \<le> codeExpires ?a \<and>
      code ?a \<noteq> ''654321''"
    by (simp add: pend)
  note r_ok = ok [THEN conjunct2, THEN conjunct2, THEN conjunct2, THEN conjunct1, rule_format, OF h_ok]
  note r_expired = expired [THEN conjunct2, THEN conjunct1, rule_format, OF h_expired]
  note r_mismatch = mismatch [THEN conjunct2, THEN conjunct2, THEN conjunct1, rule_format, OF h_mismatch]
  note r_missing = missing [THEN conjunct1, rule_format, OF none]
  show ?thesis
  proof (intro conjI)
    show "adminTelegramId pendingState = Some ''123456789''" by (fact adm(1))
    show "authCodes pendingState ''123456789'' = Some ?a" by (fact pend)
    show "fst (verifyCode pendingState [] ''123456789'' ''123456'' ''token-1'' 200000 200001 200002)
       = VerifyOk ''token-1''"
      using r_ok [THEN conjunct1] by simp
    show "authCodes (snd (verifyCode pendingState [] ''123456789'' ''123456'' ''token-1''
       200000 200001 200002)) ''123456789'' = None"
      using r_ok [THEN conjunct1] by simp
    show "fst (verifyCode (snd (verifyCode pendingState [] ''123456789'' ''123456'' ''token-1''
       200000 200001 200002)) [] ''123456789'' ''123456'' ''token-2'' 200003 200004 200005)
       = BadRequest ''Invalid or expired code''"
      using r_ok [THEN conjunct2] by (simp only: fst_conv)
    show "fst (verifyCode pendingState [] ''123456789'' ''123456'' ''token-1'' 360000 360001 360002)
       = BadRequest ''Invalid or expired code''"
      using r_expired by (simp only: fst_conv)
    show "fst (verifyCode pendingState [] ''123456789'' ''654321'' ''token-1'' 200000 200001 200002)
       = BadRequest ''Invalid or expired code''"
      using r_mismatch by (simp only: fst_conv)
    show "fst (verifyCode emptyState [] ''123456789'' ''123456'' ''token-1'' 200000 200001 200002)
       = BadRequest ''Invalid or expired code''"
      using r_missing by (simp only: fst_conv)
  qed
qed

text \<open>
  Where the claim fails: the three failures are not told apart, neither by
  \<open>verifyAuthCode\<close>, which returns false for each, nor by the handler's answer.
\<close>

theorem verifyCode_outcomes_counterexample:
  "verifyAuthCode emptyState ''123456789'' ''123456'' 200000 = (False, emptyState) \<and>
   fst (verifyAuthCode pendingState ''123456789'' ''123456'' 360000) = False \<and>
   verifyAuthCode pendingState ''123456789'' ''654321'' 200000 = (False, pendingState) \<and>
   fst (verifyCode emptyState [] ''123456789'' ''123456'' ''token-1'' 200000 200001 200002)
     = BadRequest ''Invalid or expired code'' \<and>
   fst (verifyCode pendingState [] ''123456789'' ''123456'' ''token-1'' 360000 360001 360002)
     = BadRequest ''Invalid or expired code'' \<and>
   fst (verifyCode pendingState [] ''123456789'' ''654321'' ''token-1'' 200000 200001 200002)
     = BadRequest ''Invalid or expired code''"
proof -
  have adm: "adminTelegramId pendingState = Some ''123456789''"
    "adminTelegramId emptyState = Some ''123456789''"
    by (simp_all add: pendingState_def sendAuthCode_def emptyState_def)
  have pend: "authCodes pendingState ''123456789'' = Some \<lparr>code = ''123456'', codeExpires = 300000\<rparr>"
    by (simp add: pendingState_def sendAuthCode_def)
  have none: "authCodes emptyState ''123456789'' = None"
    by (simp add: emptyState_def)
  show ?thesis
    by (simp add: verifyCode_admin adm verifyAuthCode_cases pend none)
qed

section \<open>Taking a conversation over\<close>

lemma bearerToken_prefix: "bearerToken (Some (''Bearer '' @ token)) = token"
  by (simp add: bearerToken_def)

lemma takeover_unauthorized:
  assumes "getProperty (adminSessions s) (bearerToken authorization) = Missing \<or>
           (\<exists>se. adminSessions s (bearerToken authorization) = Some se \<and> expires se < nowCheck)"
  shows "takeover s [] conversationId authorization nowCheck nowRecord nowMessage = (Unauthorized, s)"
  using assms by (auto simp: takeover_def sessionGuard_def getProperty_def split: option.splits if_splits)

lemma takeover_recorded:
  assumes "adminSessions s (bearerToken authorization) = Some se" and "nowCheck \<le> expires se"
  shows "takeover s [] conversationId authorization nowCheck nowRecord nowMessage =
     (TakeoverOk,
      s\<lparr>analyticsFile := (analyticsFile s)
           \<lparr>adminTakeovers := setProperty (adminTakeovers (analyticsFile s)) conversationId
              \<lparr>takeoverTimestamp = nowRecord, takeoverAdminId = Some (telegramId se),
               status = ''active''\<rparr>\<rparr>,
        chatLog := chatLog s @
          [\<lparr>timestamp = nowMessage, clientId = conversationId, role = Admin,
            content = takeoverGreeting, msgConfidence = Some 1, adminId = None\<rparr>]\<rparr>)"
  using assms by (simp add: takeover_def sessionGuard_def getProperty_def Let_def)

text \<open>
  Claim C8 at a token that names no session. The session file holds no session at all,
  and the request carries the token \<^verbatim>\<open>constructor\<close>: the guard finds the inherited
  member of that name, lets the request pass, and the handler records a takeover without
  an admin identifier and appends the greeting.
\<close>

theorem takeover_inherited_token:
  "adminSessions emptyState ''constructor'' = None \<and>
   takeover emptyState [] ''conversation-1'' (Some ''Bearer constructor'') 1000 1001 1002 =
     (TakeoverOk,
      emptyState
        \<lparr>analyticsFile :=
           \<lparr>days = Map.empty,
            adminTakeovers =
              [''conversation-1'' \<mapsto>
                 \<lparr>takeoverTimestamp = 1001, takeoverAdminId = None, status = ''active''\<rparr>]\<rparr>,
         chatLog :=
           [\<lparr>timestamp = 1002, clientId = ''conversation-1'', role = Admin,
             content = takeoverGreeting, msgConfidence = Some 1, adminId = None\<rparr>]\<rparr>)"
  by (simp add: takeover_def sessionGuard_def getProperty_def bearerToken_def
      objectPrototypeKeys_def setProperty_def emptyState_def Let_def)

section \<open>The daily buckets\<close>

lemma bumpRole_invariant:
  "bucketInvariant d \<Longrightarrow> r \<noteq> User \<Longrightarrow> bucketInvariant (bumpRole r (d\<lparr>total := total d + 1\<rparr>))"
  by (cases r) (simp_all add: bucketInvariant_def bumpRole_def)

lemma bumpRole_le: "bucketLe d (bumpRole r (d\<lparr>total := total d + 1\<rparr>))"
  by (cases r) (simp_all add: bucketLe_def bumpRole_def)

lemma zero_bucket_invariant: "bucketInvariant \<lparr>total = 0, chatbot = 0, ai = 0, admin = 0\<rparr>"
  by (simp add: bucketInvariant_def)

lemma recordDay_invariant:
  assumes "dayInvariant a day" and "r \<noteq> User"
  shows "dayInvariant (recordDay a today r) day"
proof (cases "day = today")
  case True
  show ?thesis
  proof (cases "days a today")
    case None
    then show ?thesis
      using True assms(2) bumpRole_invariant [OF zero_bucket_invariant]
      by (simp add: dayInvariant_def recordDay_def)
  next
    case (Some d)
    then have "bucketInvariant d" using assms(1) True by (simp add: dayInvariant_def)
    then show ?thesis
      using True Some assms(2) bumpRole_invariant by (simp add: dayInvariant_def recordDay_def)
  qed
next
  case False
  then show ?thesis using assms(1) by (simp add: dayInvariant_def recordDay_def Let_def)
qed

lemma bucketLe_refl: "bucketLe d d"
  by (simp add: bucketLe_def)

lemma bucketLe_trans: "bucketLe a b \<Longrightarrow> bucketLe b c \<Longrightarrow> bucketLe a c"
  by (simp add: bucketLe_def)

lemma dayLe_refl: "dayLe a a day"
  by (simp add: dayLe_def bucketLe_refl split: option.splits)

lemma dayLe_same_days: "days a' = days a \<Longrightarrow> dayLe a a' day"
  by (simp add: dayLe_def bucketLe_refl split: option.splits)

lemma dayLe_trans: "dayLe a b day \<Longrightarrow> dayLe b c day \<Longrightarrow> dayLe a c day"
  by (auto simp: dayLe_def split: option.splits intro: bucketLe_trans)

lemma recordDay_le: "dayLe a (recordDay a today r) day"
proof (cases "day = today")
  case True
  then show ?thesis
    using bumpRole_le by (simp add: dayLe_def recordDay_def split: option.splits)
next
  case False
  then show ?thesis
    by (simp add: dayLe_def recordDay_def Let_def bucketLe_refl split: option.splits)
qed

lemma recordUsage_files:
  "analyticsFile (recordUsage s ks f) = analyticsFile s" "chatLog (recordUsage s ks f) = chatLog s"
  by (simp_all add: recordUsage_def Let_def split: option.splits)

lemma send_begin_state:
  "analyticsFile (fst (send_begin lc create s cid txt nowUser nowBot)) = analyticsFile s"
  "chatLog (fst (send_begin lc create s cid txt nowUser nowBot)) = chatLog s"
  by (simp_all add: send_begin_def Let_def recordUsage_files split: option.splits)

lemma send_begin_role: "localRole (snd (send_begin lc create s cid txt nowUser nowBot)) \<noteq> User"
  by (simp add: send_begin_def Let_def split: option.splits)

lemma send_analytics:
  "analyticsFile (snd (send lc create s errors cid txt nowUser nowBot nowReply today)) =
     (if errors = [] then
        recordDay (analyticsFile s) today (localRole (snd (send_begin lc create s cid txt nowUser nowBot)))
      else analyticsFile s)"
  by (cases errors) (simp_all add: send_def split_beta send_commit_def Let_def send_begin_state)

lemma respond_analytics:
  "analyticsFile (snd (respond s errors cid txt authorization nowCheck nowMessage today)) =
     analyticsFile s \<or>
   analyticsFile (snd (respond s errors cid txt authorization nowCheck nowMessage today)) =
     recordDay (analyticsFile s) today Admin"
  by (cases errors) (simp_all add: respond_def Let_def split: option.splits)

lemma takeover_days:
  "days (analyticsFile (snd (takeover s errors cid authorization nowCheck nowRecord nowMessage))) =
     days (analyticsFile s)"
  by (cases errors) (simp_all add: takeover_def Let_def split: option.splits)

lemma verifyCode_days:
  "days (analyticsFile (snd (verifyCode s errors tid submitted newToken nowVerify nowCreated nowExpires)))
     = days (analyticsFile s)"
  by (cases errors)
    (simp_all add: verifyCode_def verifyAuthCode_def Let_def split_beta split: option.splits)

lemma perform_invariant:
  assumes "dayInvariant (analyticsFile s) day"
  shows "dayInvariant (analyticsFile (perform lc create s req)) day"
proof (cases req)
  case (SendOp errors cid msg nowUser nowBot nowReply today)
  then show ?thesis
    using assms recordDay_invariant [OF assms send_begin_role]
    by (simp add: perform_def send_analytics)
next
  case (RespondOp errors cid msg authorization nowCheck nowMessage today)
  then show ?thesis
    using assms recordDay_invariant [OF assms, of Admin today]
      respond_analytics [of s errors cid msg authorization nowCheck nowMessage today]
    by (auto simp: perform_def)
next
  case (TakeoverOp errors cid authorization nowCheck nowRecord nowMessage)
  then show ?thesis
    using assms takeover_days [of s errors cid authorization nowCheck nowRecord nowMessage]
    by (simp add: perform_def dayInvariant_def)
next
  case (PollOp cid parsed)
  then show ?thesis using assms by (simp add: perform_def poll_state)
next
  case (RequestCodeOp tid newCode now delivered)
  then show ?thesis using assms by (simp add: perform_def sendAuthCode_def)
next
  case (VerifyCodeOp errors tid submitted newToken nowVerify nowCreated nowExpires)
  then show ?thesis
    using assms verifyCode_days [of s errors tid submitted newToken nowVerify nowCreated nowExpires]
    by (simp add: perform_def dayInvariant_def)
qed

lemma perform_le: "dayLe (analyticsFile s) (analyticsFile (perform lc create s req)) day"
proof (cases req)
  case (SendOp errors cid msg nowUser nowBot nowReply today)
  then show ?thesis
    by (simp add: perform_def send_analytics recordDay_le dayLe_refl)
next
  case (RespondOp errors cid msg authorization nowCheck nowMessage today)
  then show ?thesis
    using respond_analytics [of s errors cid msg authorization nowCheck nowMessage today]
    by (auto simp: perform_def recordDay_le dayLe_refl)
next
  case (TakeoverOp errors cid authorization nowCheck nowRecord nowMessage)
  then show ?thesis
    using takeover_days [of s errors cid authorization nowCheck nowRecord nowMessage]
    by (simp add: perform_def dayLe_same_days)
next
  case (PollOp cid parsed)
  then show ?thesis by (simp add: perform_def poll_state dayLe_refl)
next
  case (RequestCodeOp tid newCode now delivered)
  then show ?thesis by (simp add: perform_def sendAuthCode_def dayLe_refl)
next
  case (VerifyCodeOp errors tid submitted newToken nowVerify nowCreated nowExpires)
  then show ?thesis
    using verifyCode_days [of s errors tid submitted newToken nowVerify nowCreated nowExpires]
    by (simp add: perform_def dayLe_same_days)
qed

lemma performAll_invariant:
  "dayInvariant (analyticsFile s) day \<Longrightarrow>
   dayInvariant (analyticsFile (performAll lc create s ops)) day"
  unfolding performAll_def
  by (induction ops arbitrary: s) (simp_all add: perform_invariant)

lemma performAll_le:
  "dayLe (analyticsFile s) (analyticsFile (performAll lc create s ops)) day"
  unfolding performAll_def
proof (induction ops arbitrary: s)
  case Nil
  then show ?case by (simp add: dayLe_refl)
next
  case (Cons op ops)
  show ?case
    using dayLe_trans [OF perform_le [of s lc create op day] Cons.IH [of "perform lc create s op"]]
    by simp
qed

text \<open>
  Claim C10. Take any state and any sequence of operations of the server, each with any
  inputs. A day that has no bucket at the start, or one that satisfies the invariant,
  has at the end no bucket or one with total = chatbot + ai + admin and four counters
  that are not negative. A bucket that exists at the start still exists at the end, and
  none of its counters is lower. The bucket that a send request creates counts one
  message, for the chatbot or for the AI.
\<close>

theorem daily_buckets_invariant:
  "(days (analyticsFile s) day = None \<or>
    (\<exists>d. days (analyticsFile s) day = Some d \<and> bucketInvariant d) \<longrightarrow>
      (case days (analyticsFile (performAll lc create s ops)) day of
         None \<Rightarrow> True
       | Some d \<Rightarrow>
           total d = chatbot d + ai d + admin d \<and>
           0 \<le> total d \<and> 0 \<le> chatbot d \<and> 0 \<le> ai d \<and> 0 \<le> admin d)) \<and>
   (\<forall>d. days (analyticsFile s) day = Some d \<longrightarrow>
      (\<exists>d'. days (analyticsFile (performAll lc create s ops)) day = Some d' \<and>
            total d \<le> total d' \<and> chatbot d \<le> chatbot d' \<and> ai d \<le> ai d' \<and>
            admin d \<le> admin d')) \<and>
   (days (analyticsFile s) today = None \<longrightarrow>
      (\<exists>d. days (analyticsFile (perform lc create s
                (SendOp [] cid txt nowUser nowBot nowReply today))) today = Some d \<and>
           total d = 1 \<and> chatbot d + ai d = 1 \<and> admin d = 0))"
proof (intro conjI impI allI)
  assume "days (analyticsFile s) day = None \<or>
    (\<exists>d. days (analyticsFile s) day = Some d \<and> bucketInvariant d)"
  then have "dayInvariant (analyticsFile s) day"
    by (auto simp: dayInvariant_def)
  from performAll_invariant [OF this, of lc create ops]
  show "case days (analyticsFile (performAll lc create s ops)) day of
         None \<Rightarrow> True
       | Some d \<Rightarrow>
           total d = chatbot d + ai d + admin d \<and>
           0 \<le> total d \<and> 0 \<le> chatbot d \<and> 0 \<le> ai d \<and> 0 \<le> admin d"
    by (simp add: dayInvariant_def bucketInvariant_def split: option.splits)
next
  fix d
  assume "days (analyticsFile s) day = Some d"
  then show "\<exists>d'. days (analyticsFile (performAll lc create s ops)) day = Some d' \<and>
            total d \<le> total d' \<and> chatbot d \<le> chatbot d' \<and> ai d \<le> ai d' \<and>
            admin d \<le> admin d'"
    using performAll_le [of s lc create ops day]
    by (auto simp: dayLe_def bucketLe_def split: option.splits)
next
  assume none: "days (analyticsFile s) today = None"
  let ?r = "localRole (snd (send_begin lc create s cid txt nowUser nowBot))"
  have "?r = Chatbot \<or> ?r = Ai"
    by (simp add: send_begin_def Let_def split: option.splits)
  then show "\<exists>d. days (analyticsFile (perform lc create s
                (SendOp [] cid txt nowUser nowBot nowReply today))) today = Some d \<and>
           total d = 1 \<and> chatbot d + ai d = 1 \<and> admin d = 0"
    using none by (auto simp: perform_def send_analytics recordDay_def bumpRole_def)
qed

lemma send_escalated:
  assumes "shouldEscalate (analyzeMessage lc (confidenceThreshold s) (knowledgeBase s) msg) \<or>
           match (analyzeMessage lc (confidenceThreshold s) (knowledgeBase s) msg) = None"
  shows "snd (send lc create s [] cid msg nowUser nowBot nowReply today) =
            s\<lparr>chatLog := chatLog s @
                 [userMessageOf cid msg nowUser,
                  \<lparr>timestamp = nowBot, clientId = cid, role = Ai,
                   content = aiResponse (processMessage create msg),
                   msgConfidence = Some (replyConfidence
                     (analyzeMessage lc (confidenceThreshold s) (knowledgeBase s) msg)),
                   adminId = None\<rparr>],
              analyticsFile := recordDay (analyticsFile s) today Ai\<rparr>"
  using send_begin_escalated [OF assms, of create cid nowUser nowBot]
  by (simp add: send_accepted send_commit_def userMessageOf_def)

lemma cargo_escalated:
  assumes "knowledgeBase s = defaultKnowledgeBase"
  shows "match (analyzeMessage asciiLower (confidenceThreshold s) (knowledgeBase s) cargoMessage) = None"
  using assms by (simp add: analyzeMessage_spec maximalWeighted_cargo_default)

lemma busyState_analytics:
  "analyticsFile busyState =
     \<lparr>days = [''2024-05-01'' \<mapsto> \<lparr>total = 1, chatbot = 0, ai = 1, admin = 0\<rparr>],
      adminTakeovers = Map.empty\<rparr>"
  "knowledgeBase busyState = defaultKnowledgeBase"
proof -
  have kb: "knowledgeBase emptyState = defaultKnowledgeBase" by (simp add: emptyState_def)
  note e = send_escalated [OF disjI2 [OF cargo_escalated [OF kb]],
      of "\<lambda>_. Rejected" "''c1''" 1000 1001 1002 "''2024-05-01''"]
  show "analyticsFile busyState =
     \<lparr>days = [''2024-05-01'' \<mapsto> \<lparr>total = 1, chatbot = 0, ai = 1, admin = 0\<rparr>],
      adminTakeovers = Map.empty\<rparr>"
    unfolding busyState_def e by (simp add: emptyState_def recordDay_def bumpRole_def)
  show "knowledgeBase busyState = defaultKnowledgeBase"
    unfolding busyState_def e by (simp add: kb)
qed

theorem daily_buckets_invariant_witness:
  "days (analyticsFile emptyState) ''2024-05-01'' = None \<and>
   (\<exists>d. days (analyticsFile (perform asciiLower (\<lambda>_. Rejected) emptyState
           (SendOp [] ''c1'' cargoMessage 1000 1001 1002 ''2024-05-01''))) ''2024-05-01'' = Some d \<and>
        total d = 1 \<and> chatbot d + ai d = 1 \<and> admin d = 0) \<and>
   days (analyticsFile busyState) ''2024-05-01'' =
     Some \<lparr>total = 1, chatbot = 0, ai = 1, admin = 0\<rparr> \<and>
   (\<exists>d'. days (analyticsFile (performAll asciiLower (\<lambda>_. Rejected) busyState
            [SendOp [] ''c2'' cargoMessage 2000 2001 2002 ''2024-05-01'',
             PollOp ''c2'' (Some 0)])) ''2024-05-01'' = Some d' \<and>
         1 \<le> total d' \<and> 0 \<le> chatbot d' \<and> 1 \<le> ai d' \<and> 0 \<le> admin d' \<and>
         total d' = chatbot d' + ai d' + admin d')"
proof -
  let ?ops = "[SendOp [] ''c2'' cargoMessage 2000 2001 2002 ''2024-05-01'', PollOp ''c2'' (Some 0)]"
  let ?d = "\<lparr>total = 1, chatbot = 0, ai = 1, admin = 0\<rparr>"
  have none: "days (analyticsFile emptyState) ''2024-05-01'' = None"
    by (simp add: emptyState_def)
  have some: "days (analyticsFile busyState) ''2024-05-01'' = Some ?d"
    by (simp add: busyState_analytics)
  have inv: "bucketInvariant ?d" by (simp add: bucketInvariant_def)
  note T1 = daily_buckets_invariant [of emptyState "''2024-05-01''" asciiLower "\<lambda>_. Rejected" "[]"
      "''2024-05-01''" "''c1''" cargoMessage 1000 1001 1002]
  note T2 = daily_buckets_invariant [of busyState "''2024-05-01''" asciiLower "\<lambda>_. Rejected" ?ops
      "''2024-05-01''" "''c2''" cargoMessage 2000 2001 2002]
  from T1 none have created: "\<exists>d. days (analyticsFile (perform asciiLower (\<lambda>_. Rejected) emptyState
           (SendOp [] ''c1'' cargoMessage 1000 1001 1002 ''2024-05-01''))) ''2024-05-01'' = Some d \<and>
        total d = 1 \<and> chatbot d + ai d = 1 \<and> admin d = 0"
    by blast
  from T2 some obtain d' where d': "days (analyticsFile (performAll asciiLower (\<lambda>_. Rejected) busyState
      ?ops)) ''2024-05-01'' = Some d'"
    "total ?d \<le> total d'" "chatbot ?d \<le> chatbot d'" "ai ?d \<le> ai d'" "admin ?d \<le> admin d'"
    by blast
  from T2 some inv have "case days (analyticsFile (performAll asciiLower (\<lambda>_. Rejected) busyState
      ?ops)) ''2024-05-01'' of None \<Rightarrow> True
    | Some d \<Rightarrow> total d = chatbot d + ai d + admin d \<and>
        0 \<le> total d \<and> 0 \<le> chatbot d \<and> 0 \<le> ai d \<and> 0 \<le> admin d"
    by blast
  with d' have "total d' = chatbot d' + ai d' + admin d'" by simp
  with d' have "\<exists>d'. days (analyticsFile (performAll asciiLower (\<lambda>_. Rejected) busyState
            ?ops)) ''2024-05-01'' = Some d' \<and>
         1 \<le> total d' \<and> 0 \<le> chatbot d' \<and> 1 \<le> ai d' \<and> 0 \<le> admin d' \<and>
         total d' = chatbot d' + ai d' + admin d'"
    by auto
  with none created some show ?thesis by blast
qed

section \<open>Two sends that overlap\<close>

lemma send_begin_log:
  "\<exists>bot. localLog (snd (send_begin lc create s cid msg nowUser nowBot)) =
           chatLog s @ [userMessageOf cid msg nowUser, bot] \<and>
         role bot \<noteq> User \<and> timestamp bot = nowBot \<and> clientId bot = cid"
  by (simp add: send_begin_def Let_def userMessageOf_def split: option.splits)

lemma send_commit_log: "chatLog (send_commit s loc today) = localLog loc"
  by (simp add: send_commit_def)

lemma sendInterleaved_log:
  "chatLog (sendInterleaved lc create s cid textA nowUserA nowBotA textB nowUserB nowBotB today) =
     localLog (snd (send_begin lc create
        (fst (send_begin lc create s cid textA nowUserA nowBotA)) cid textB nowUserB nowBotB))"
  by (simp add: sendInterleaved_def split_beta Let_def send_commit_log)

lemma send_log:
  "chatLog (snd (send lc create s [] cid msg nowUser nowBot nowReply today)) =
     localLog (snd (send_begin lc create s cid msg nowUser nowBot))"
  by (simp add: send_accepted send_commit_log)

text \<open>
  Claim C4, as the code has it. When two send requests on one conversation overlap so
  that both read the log before either writes it, the log at the end is the log at the
  start followed by the two messages of the request that wrote last: the user message
  and the reply of the other request are lost. When the second request starts after the
  first has finished, the log ends with the four messages, in order.
\<close>

theorem send_interleaved_lost_update:
  "(\<exists>botB. chatLog (sendInterleaved lc create s cid textA nowUserA nowBotA textB nowUserB nowBotB today)
        = chatLog s @ [userMessageOf cid textB nowUserB, botB] \<and>
      role botB \<noteq> User \<and> timestamp botB = nowBotB \<and> clientId botB = cid) \<and>
   (userMessageOf cid textA nowUserA \<notin> set (chatLog s) \<and>
    userMessageOf cid textA nowUserA \<noteq> userMessageOf cid textB nowUserB \<longrightarrow>
      userMessageOf cid textA nowUserA \<notin>
        set (chatLog (sendInterleaved lc create s cid textA nowUserA nowBotA textB nowUserB nowBotB today))) \<and>
   (\<exists>botA botB. chatLog (sendSequential lc create s cid textA nowUserA nowBotA textB nowUserB nowBotB today)
        = chatLog s @ [userMessageOf cid textA nowUserA, botA, userMessageOf cid textB nowUserB, botB] \<and>
      role botA \<noteq> User \<and> timestamp botA = nowBotA \<and> clientId botA = cid \<and>
      role botB \<noteq> User \<and> timestamp botB = nowBotB \<and> clientId botB = cid)"
proof (intro conjI impI)
  let ?s1 = "fst (send_begin lc create s cid textA nowUserA nowBotA)"
  have s1: "chatLog ?s1 = chatLog s" by (rule send_begin_state)
  obtain botB where botB:
    "localLog (snd (send_begin lc create ?s1 cid textB nowUserB nowBotB)) =
       chatLog ?s1 @ [userMessageOf cid textB nowUserB, botB]"
    "role botB \<noteq> User" "timestamp botB = nowBotB" "clientId botB = cid"
    using send_begin_log [of lc create ?s1 cid textB nowUserB nowBotB] by blast
  have log: "chatLog (sendInterleaved lc create s cid textA nowUserA nowBotA textB nowUserB nowBotB today)
        = chatLog s @ [userMessageOf cid textB nowUserB, botB]"
    unfolding sendInterleaved_log botB(1) s1 ..
  with botB show "\<exists>botB. chatLog (sendInterleaved lc create s cid textA nowUserA nowBotA textB nowUserB nowBotB today)
        = chatLog s @ [userMessageOf cid textB nowUserB, botB] \<and>
      role botB \<noteq> User \<and> timestamp botB = nowBotB \<and> clientId botB = cid"
    by blast
  assume a: "userMessageOf cid textA nowUserA \<notin> set (chatLog s) \<and>
    userMessageOf cid textA nowUserA \<noteq> userMessageOf cid textB nowUserB"
  have "userMessageOf cid textA nowUserA \<noteq> botB"
    using botB(2) by (auto simp: userMessageOf_def)
  with a show "userMessageOf cid textA nowUserA \<notin>
        set (chatLog (sendInterleaved lc create s cid textA nowUserA nowBotA textB nowUserB nowBotB today))"
    unfolding log by simp
next
  let ?sA = "snd (send lc create s [] cid textA nowUserA nowBotA nowBotA today)"
  obtain botA where botA:
    "chatLog ?sA = chatLog s @ [userMessageOf cid textA nowUserA, botA]"
    "role botA \<noteq> User" "timestamp botA = nowBotA" "clientId botA = cid"
    using send_begin_log [of lc create s cid textA nowUserA nowBotA] unfolding send_log by blast
  obtain botB where botB:
    "chatLog (snd (send lc create ?sA [] cid textB nowUserB nowBotB nowBotB today)) =
       chatLog ?sA @ [userMessageOf cid textB nowUserB, botB]"
    "role botB \<noteq> User" "timestamp botB = nowBotB" "clientId botB = cid"
    using send_begin_log [of lc create ?sA cid textB nowUserB nowBotB] unfolding send_log by blast
  have "chatLog (sendSequential lc create s cid textA nowUserA nowBotA textB nowUserB nowBotB today)
        = chatLog s @ [userMessageOf cid textA nowUserA, botA, userMessageOf cid textB nowUserB, botB]"
    unfolding sendSequential_def botB(1) botA(1) by simp
  with botA botB show "\<exists>botA botB. chatLog (sendSequential lc create s cid textA nowUserA nowBotA textB nowUserB nowBotB today)
        = chatLog s @ [userMessageOf cid textA nowUserA, botA, userMessageOf cid textB nowUserB, botB] \<and>
      role botA \<noteq> User \<and> timestamp botA = nowBotA \<and> clientId botA = cid \<and>
      role botB \<noteq> User \<and> timestamp botB = nowBotB \<and> clientId botB = cid"
    by blast
qed

lemma scenario_cargo_differ: "scenarioMessage \<noteq> cargoMessage"
  by (simp add: scenarioMessage_def cargoMessage_def)

theorem send_interleaved_lost_update_witness:
  "userMessageOf ''c1'' scenarioMessage 1000 \<notin> set (chatLog emptyState) \<and>
   userMessageOf ''c1'' scenarioMessage 1000 \<noteq> userMessageOf ''c1'' cargoMessage 1002 \<and>
   userMessageOf ''c1'' cargoMessage 1002 \<in>
     set (chatLog (sendInterleaved asciiLower (\<lambda>_. Rejected) emptyState ''c1''
            scenarioMessage 1000 1001 cargoMessage 1002 1003 ''2024-05-01'')) \<and>
   userMessageOf ''c1'' scenarioMessage 1000 \<notin>
     set (chatLog (sendInterleaved asciiLower (\<lambda>_. Rejected) emptyState ''c1''
            scenarioMessage 1000 1001 cargoMessage 1002 1003 ''2024-05-01'')) \<and>
   userMessageOf ''c1'' scenarioMessage 1000 \<in>
     set (chatLog (sendSequential asciiLower (\<lambda>_. Rejected) emptyState ''c1''
            scenarioMessage 1000 1001 cargoMessage 1002 1003 ''2024-05-01'')) \<and>
   userMessageOf ''c1'' cargoMessage 1002 \<in>
     set (chatLog (sendSequential asciiLower (\<lambda>_. Rejected) emptyState ''c1''
            scenarioMessage 1000 1001 cargoMessage 1002 1003 ''2024-05-01''))"
proof -
  have h1: "userMessageOf ''c1'' scenarioMessage 1000 \<notin> set (chatLog emptyState)"
    by (simp add: emptyState_def)
  have h2: "userMessageOf ''c1'' scenarioMessage 1000 \<noteq> userMessageOf ''c1'' cargoMessage 1002"
    by (simp add: userMessageOf_def)
  note T = send_interleaved_lost_update [of asciiLower "\<lambda>_. Rejected" emptyState "''c1''"
      scenarioMessage 1000 1001 cargoMessage 1002 1003 "''2024-05-01''"]
  from T obtain botB where "chatLog (sendInterleaved asciiLower (\<lambda>_. Rejected) emptyState ''c1''
      scenarioMessage 1000 1001 cargoMessage 1002 1003 ''2024-05-01'') =
      chatLog emptyState @ [userMessageOf ''c1'' cargoMessage 1002, botB]"
    by blast
  then have i1: "userMessageOf ''c1'' cargoMessage 1002 \<in>
     set (chatLog (sendInterleaved asciiLower (\<lambda>_. Rejected) emptyState ''c1''
            scenarioMessage 1000 1001 cargoMessage 1002 1003 ''2024-05-01''))"
    by simp
  from T h1 h2 have i2: "userMessageOf ''c1'' scenarioMessage 1000 \<notin>
     set (chatLog (sendInterleaved asciiLower (\<lambda>_. Rejected) emptyState ''c1''
            scenarioMessage 1000 1001 cargoMessage 1002 1003 ''2024-05-01''))"
    by blast
  from T obtain botA botB' where "chatLog (sendSequential asciiLower (\<lambda>_. Rejected) emptyState ''c1''
      scenarioMessage 1000 1001 cargoMessage 1002 1003 ''2024-05-01'') =
      chatLog emptyState @ [userMessageOf ''c1'' scenarioMessage 1000, botA,
        userMessageOf ''c1'' cargoMessage 1002, botB']"
    by blast
  then have q: "userMessageOf ''c1'' scenarioMessage 1000 \<in>
     set (chatLog (sendSequential asciiLower (\<lambda>_. Rejected) emptyState ''c1''
            scenarioMessage 1000 1001 cargoMessage 1002 1003 ''2024-05-01''))"
    "userMessageOf ''c1'' cargoMessage 1002 \<in>
     set (chatLog (sendSequential asciiLower (\<lambda>_. Rejected) emptyState ''c1''
            scenarioMessage 1000 1001 cargoMessage 1002 1003 ''2024-05-01''))"
    by simp_all
  show ?thesis using h1 h2 i1 i2 q by blast
qed

text \<open>
  Where the claim fails: two requests on conversation \<open>c1\<close>, the first with the message
  of the price scenario, the second with the message of the cargo scenario, both reading
  the empty log before either writes. The log at the end holds two messages, and the
  first request's message is not among them.
\<close>

theorem send_interleaved_lost_update_counterexample:
  "length (chatLog (sendInterleaved asciiLower (\<lambda>_. Rejected) emptyState ''c1''
            scenarioMessage 1000 1001 cargoMessage 1002 1003 ''2024-05-01'')) = 2 \<and>
   map content (chatLog (sendInterleaved asciiLower (\<lambda>_. Rejected) emptyState ''c1''
            scenarioMessage 1000 1001 cargoMessage 1002 1003 ''2024-05-01''))
     = [cargoMessage, fallbackResponse] \<and>
   userMessageOf ''c1'' scenarioMessage 1000 \<notin>
     set (chatLog (sendInterleaved asciiLower (\<lambda>_. Rejected) emptyState ''c1''
            scenarioMessage 1000 1001 cargoMessage 1002 1003 ''2024-05-01''))"
proof -
  let ?s1 = "fst (send_begin asciiLower (\<lambda>_. Rejected) emptyState ''c1'' scenarioMessage 1000 1001)"
  note M = maximalWeighted_default_scenario
  have kb0: "knowledgeBase emptyState = defaultKnowledgeBase" "confidenceThreshold emptyState = literal 7 10"
    "chatLog emptyState = []"
    by (simp_all add: emptyState_def)
  have escA: "shouldEscalate (analyzeMessage asciiLower (confidenceThreshold emptyState)
      (knowledgeBase emptyState) scenarioMessage) \<or>
      match (analyzeMessage asciiLower (confidenceThreshold emptyState)
      (knowledgeBase emptyState) scenarioMessage) = None"
    using M(2) by (simp add: kb0 analyzeMessage_spec)
  have s1: "?s1 = emptyState"
    using send_begin_escalated [OF escA, of "\<lambda>_. Rejected" "''c1''" 1000 1001] by simp
  have escB: "shouldEscalate (analyzeMessage asciiLower (confidenceThreshold emptyState)
      (knowledgeBase emptyState) cargoMessage) \<or>
      match (analyzeMessage asciiLower (confidenceThreshold emptyState)
      (knowledgeBase emptyState) cargoMessage) = None"
    using cargo_escalated [OF kb0(1)] by simp
  have p: "processMessage (\<lambda>_. Rejected) cargoMessage =
      \<lparr>aiResponse = fallbackResponse, aiConfidence = 3 / 10, tokensUsed = 0\<rparr>"
    by (simp add: processMessage_def)
  have log: "chatLog (sendInterleaved asciiLower (\<lambda>_. Rejected) emptyState ''c1''
            scenarioMessage 1000 1001 cargoMessage 1002 1003 ''2024-05-01'') =
      [userMessageOf ''c1'' cargoMessage 1002,
       \<lparr>timestamp = 1003, clientId = ''c1'', role = Ai, content = fallbackResponse,
        msgConfidence = Some (replyConfidence (analyzeMessage asciiLower
          (confidenceThreshold emptyState) (knowledgeBase emptyState) cargoMessage)),
        adminId = None\<rparr>]"
    unfolding sendInterleaved_log s1
    using send_begin_escalated [OF escB, of "\<lambda>_. Rejected" "''c1''" 1002 1003]
    by (simp add: p kb0 userMessageOf_def)
  show ?thesis
    unfolding log using scenario_cargo_differ by (simp add: userMessageOf_def)
qed

end
